theory Spec2Isabelle
  imports Complex_Main "HOL-Library.AList" "HOL-Library.Char_ord" "HOL-Library.List_Lexorder"
    "HOL-Library.Product_Lexorder" "HOL-Library.Multiset"
begin

section \<open>Errors and enumerations\<close>

text \<open>
  Every \<^verbatim>\<open>raise\<close>, failed \<^verbatim>\<open>assert\<close> and failing built-in operation of the
  Python sources is a value of this type.
\<close>

datatype error =
    DoubleFree
  | OutOfMemory
  | OutOfSharedMemory
  | UnknownBlockType
  | NoUsableCacheMemory
  | NotInEvictor
  | IndexError
  | KeyError
  | AssertionError
  | TypeError
  | ValueError
  | ZeroDivisionError
  | NotImplementedError
  | RuntimeError
  | StopIteration
  | NonFiniteFloat

datatype Device = GPU | CPU

text \<open>\<^verbatim>\<open>class SequenceStatus(enum.IntEnum)\<close> of \<^verbatim>\<open>vllm/sequence.py\<close>.\<close>

datatype SequenceStatus =
    WAITING
  | RUNNING
  | SWAPPED
  | FINISHED_STOPPED
  | FINISHED_LENGTH_CAPPED
  | FINISHED_ABORTED
  | FINISHED_IGNORED
  | PARTIAL_SWAPPED
  | All
  | WAITING_TO_RUNNING
  | RUNNING_TO_WAITING
  | RUNNING_TO_FINISHED_STOPPED

fun status_value :: "SequenceStatus \<Rightarrow> nat" where
  "status_value WAITING = 0"
| "status_value RUNNING = 1"
| "status_value SWAPPED = 2"
| "status_value FINISHED_STOPPED = 3"
| "status_value FINISHED_LENGTH_CAPPED = 4"
| "status_value FINISHED_ABORTED = 5"
| "status_value FINISHED_IGNORED = 6"
| "status_value PARTIAL_SWAPPED = 7"
| "status_value All = 8"
| "status_value WAITING_TO_RUNNING = 9"
| "status_value RUNNING_TO_WAITING = 10"
| "status_value RUNNING_TO_FINISHED_STOPPED = 11"

text \<open>\<^verbatim>\<open>SequenceStatus.is_finished\<close>: \<^verbatim>\<open>status > SequenceStatus.SWAPPED\<close>.\<close>

definition status_is_finished :: "SequenceStatus \<Rightarrow> bool" where
  "status_is_finished st = (status_value st > status_value SWAPPED)"

datatype SequenceStage = PREFILL | DECODE

datatype SequenceType = TEMP | NORMAL

text \<open>
  Modelled from the spec: the three admission answers \<open>{Ok, Later, Never}\<close> of
  \<^verbatim>\<open>AllocStatus\<close> (\<^verbatim>\<open>vllm.core.interfaces\<close>, not among the sources).
\<close>

datatype AllocStatus = OK | LATER | NEVER

section \<open>SchedulingBudget\<close>

text \<open>
  The dataclass \<^verbatim>\<open>SchedulingBudget\<close> of \<^verbatim>\<open>vllm/core/.backup/scheduler.py\<close>.  The
  private fields \<^verbatim>\<open>_num_batched_tokens\<close> and \<^verbatim>\<open>_num_curr_seqs\<close> carry the prefix
  \<open>priv\<close>; the properties that read them keep their names.
\<close>

record SchedulingBudget =
  token_budget :: int
  max_num_seqs :: int
  requeset_ids_num_batched_tokens :: "string set"
  requeset_ids_num_curr_seqs :: "string set"
  priv_num_batched_tokens :: int
  priv_num_curr_seqs :: int


definition num_batched_tokens :: "SchedulingBudget \<Rightarrow> int" where
  "num_batched_tokens b = priv_num_batched_tokens b"

definition num_curr_seqs :: "SchedulingBudget \<Rightarrow> int" where
  "num_curr_seqs b = priv_num_curr_seqs b"

definition can_schedule :: "SchedulingBudget \<Rightarrow> int \<Rightarrow> int \<Rightarrow> bool" where
  "can_schedule b num_new_tokens num_new_seqs =
     (num_batched_tokens b + num_new_tokens \<le> token_budget b
      \<and> num_curr_seqs b + num_new_seqs \<le> max_num_seqs b)"

definition remaining_token_budget :: "SchedulingBudget \<Rightarrow> int" where
  "remaining_token_budget b = token_budget b - num_batched_tokens b"

definition add_num_batched_tokens :: "SchedulingBudget \<Rightarrow> string \<Rightarrow> int \<Rightarrow> SchedulingBudget" where
  "add_num_batched_tokens b req_id n =
     (if req_id \<in> requeset_ids_num_batched_tokens b then b
      else b\<lparr>requeset_ids_num_batched_tokens := insert req_id (requeset_ids_num_batched_tokens b),
             priv_num_batched_tokens := priv_num_batched_tokens b + n\<rparr>)"

definition subtract_num_batched_tokens :: "SchedulingBudget \<Rightarrow> string \<Rightarrow> int \<Rightarrow> SchedulingBudget" where
  "subtract_num_batched_tokens b req_id n =
     (if req_id \<in> requeset_ids_num_batched_tokens b
      then b\<lparr>requeset_ids_num_batched_tokens := requeset_ids_num_batched_tokens b - {req_id},
             priv_num_batched_tokens := priv_num_batched_tokens b - n\<rparr>
      else b)"

definition add_num_seqs :: "SchedulingBudget \<Rightarrow> string \<Rightarrow> int \<Rightarrow> SchedulingBudget" where
  "add_num_seqs b req_id n =
     (if req_id \<in> requeset_ids_num_curr_seqs b then b
      else b\<lparr>requeset_ids_num_curr_seqs := insert req_id (requeset_ids_num_curr_seqs b),
             priv_num_curr_seqs := priv_num_curr_seqs b + n\<rparr>)"

definition subtract_num_seqs :: "SchedulingBudget \<Rightarrow> string \<Rightarrow> int \<Rightarrow> SchedulingBudget" where
  "subtract_num_seqs b req_id n =
     (if req_id \<in> requeset_ids_num_curr_seqs b
      then b\<lparr>requeset_ids_num_curr_seqs := requeset_ids_num_curr_seqs b - {req_id},
             priv_num_curr_seqs := priv_num_curr_seqs b - n\<rparr>
      else b)"

section \<open>Physical blocks and the object store\<close>

text \<open>
  Modelled from the spec: the class \<^verbatim>\<open>PhysicalTokenBlock\<close> (\<^verbatim>\<open>vllm.block\<close>, not among
  the sources), with the attributes of section 3 of the specification (\<open>ref_count\<close>,
  content hash, \<open>last_accessed\<close>, \<open>computed\<close>) and the constructor arguments that
  \<^verbatim>\<open>block_manager_v1.py\<close> passes.  A fresh block has \<open>ref_count = 0\<close>.  Timestamps are
  idealised as reals.
\<close>

record PhysicalTokenBlock =
  device :: Device
  block_number :: nat
  pb_block_size :: nat
  block_hash :: int
  num_hashed_tokens :: int
  ref_count :: nat
  last_accessed :: real
  computed :: bool

definition new_PhysicalTokenBlock :: "Device \<Rightarrow> nat \<Rightarrow> nat \<Rightarrow> int \<Rightarrow> int \<Rightarrow> PhysicalTokenBlock" where
  "new_PhysicalTokenBlock d n bs hsh nh =
     \<lparr>device = d, block_number = n, pb_block_size = bs, block_hash = hsh,
      num_hashed_tokens = nh, ref_count = 0, last_accessed = -1, computed = False\<rparr>"

text \<open>
  Block objects are shared by reference between free lists, the cache, the evictor and
  the block tables, and \<open>ref_count\<close> is mutated through any of these references.  The
  objects therefore live in an explicit store; a reference is an index into it.
\<close>

type_synonym ref = nat
type_synonym heap = "PhysicalTokenBlock list"

definition set_ref_count :: "heap \<Rightarrow> ref \<Rightarrow> nat \<Rightarrow> heap" where
  "set_ref_count h r n = h[r := (h ! r)\<lparr>ref_count := n\<rparr>]"

section \<open>UncachedBlockAllocator\<close>

record UncachedBlockAllocator =
  u_device :: Device
  u_block_size :: nat
  u_num_blocks :: nat
  u_num_shared_blocks :: int
  free_shared_blocks :: "ref list"
  free_blocks :: "ref list"
  total_blocks :: "ref list"

text \<open>
  \<^verbatim>\<open>UncachedBlockAllocator.__init__\<close>: creates \<open>num_blocks + num_shared_blocks\<close> block
  objects (appended to the store), the first \<open>num_blocks\<close> of them free and normal, the
  others free and shared; the field \<open>num_shared_blocks\<close> starts at 0.
\<close>

definition new_UncachedBlockAllocator ::
  "Device \<Rightarrow> nat \<Rightarrow> nat \<Rightarrow> nat \<Rightarrow> heap \<Rightarrow> UncachedBlockAllocator \<times> heap" where
  "new_UncachedBlockAllocator d bs nb nsh h =
     (let refs = map (\<lambda>i. length h + i) [0..<nb + nsh];
          objs = map (\<lambda>i. new_PhysicalTokenBlock d i bs (-1) 0) [0..<nb + nsh]
      in (\<lparr>u_device = d, u_block_size = bs, u_num_blocks = nb, u_num_shared_blocks = 0,
           free_shared_blocks = drop nb refs, free_blocks = take nb refs,
           total_blocks = refs\<rparr>, h @ objs))"

definition uncached_allocate ::
  "UncachedBlockAllocator \<Rightarrow> heap \<Rightarrow> string \<Rightarrow> error + (ref \<times> UncachedBlockAllocator \<times> heap)" where
  "uncached_allocate a h block_type =
     (if block_type = ''normal'' then
        (if free_blocks a = [] then Inl OutOfMemory
         else let b = last (free_blocks a)
              in Inr (b, a\<lparr>free_blocks := butlast (free_blocks a)\<rparr>, set_ref_count h b 1))
      else if block_type = ''shared'' then
        (if free_shared_blocks a = [] then Inl OutOfSharedMemory
         else let b = last (free_shared_blocks a)
              in Inr (b, a\<lparr>free_shared_blocks := butlast (free_shared_blocks a)\<rparr>,
                      set_ref_count h b 1))
      else Inl UnknownBlockType)"

text \<open>
  \<^verbatim>\<open>free\<close> returns the exception raised, if any, together with the allocator and the
  store as the call leaves them: an exception does not undo the mutations made before it.
\<close>

definition uncached_free ::
  "UncachedBlockAllocator \<Rightarrow> heap \<Rightarrow> ref \<Rightarrow> string \<Rightarrow> error option \<times> UncachedBlockAllocator \<times> heap" where
  "uncached_free a h b block_type =
     (if ref_count (h ! b) = 0 then (Some DoubleFree, a, h)
      else let h' = set_ref_count h b (ref_count (h ! b) - 1)
           in if ref_count (h' ! b) = 0 then
                (if block_type = ''normal'' then (None, a\<lparr>free_blocks := free_blocks a @ [b]\<rparr>, h')
                 else if block_type = ''shared'' then
                   (None, a\<lparr>free_shared_blocks := free_shared_blocks a @ [b]\<rparr>, h')
                 else (Some UnknownBlockType, a, h'))
              else (None, a, h'))"

definition uncached_get_num_free_blocks :: "UncachedBlockAllocator \<Rightarrow> string \<Rightarrow> error + int" where
  "uncached_get_num_free_blocks a block_type =
     (if block_type = ''normal'' then Inr (int (length (free_blocks a)))
      else if block_type = ''shared'' then Inr (int (length (free_shared_blocks a)))
      else Inl UnknownBlockType)"

definition uncached_get_num_total_blocks :: "UncachedBlockAllocator \<Rightarrow> string \<Rightarrow> error + int" where
  "uncached_get_num_total_blocks a block_type =
     (if block_type = ''normal'' then Inr (int (u_num_blocks a))
      else if block_type = ''shared'' then Inr (u_num_shared_blocks a)
      else Inl UnknownBlockType)"

section \<open>CachedBlockAllocator\<close>

text \<open>
  Modelled from the spec: the evictor (\<^verbatim>\<open>vllm.core.evictor_v1\<close>, not among the sources).
  It holds the blocks with \<open>ref_count = 0\<close> that still retain content, keyed by content
  hash in insertion order; eviction is least-recently-used (the first block with the
  smallest \<open>last_accessed\<close>).
\<close>

type_synonym Evictor = "(int \<times> ref) list"

definition evictor_contains :: "Evictor \<Rightarrow> int \<Rightarrow> bool" where
  "evictor_contains ev hsh = (map_of ev hsh \<noteq> None)"

definition evictor_add :: "Evictor \<Rightarrow> heap \<Rightarrow> ref \<Rightarrow> Evictor" where
  "evictor_add ev h b = AList.update (block_hash (h ! b)) b ev"

definition evictor_remove :: "Evictor \<Rightarrow> int \<Rightarrow> error + (ref \<times> Evictor)" where
  "evictor_remove ev hsh =
     (case map_of ev hsh of None \<Rightarrow> Inl NotInEvictor
      | Some b \<Rightarrow> Inr (b, AList.delete hsh ev))"

fun lru_entry :: "heap \<Rightarrow> (int \<times> ref) \<Rightarrow> (int \<times> ref) list \<Rightarrow> (int \<times> ref)" where
  "lru_entry h best [] = best"
| "lru_entry h best (e # es) =
     (if last_accessed (h ! snd e) < last_accessed (h ! snd best)
      then lru_entry h e es else lru_entry h best es)"

definition evictor_evict :: "Evictor \<Rightarrow> heap \<Rightarrow> error + (ref \<times> Evictor)" where
  "evictor_evict ev h =
     (case ev of [] \<Rightarrow> Inl NoUsableCacheMemory
      | e # es \<Rightarrow> (let v = lru_entry h e es in Inr (snd v, AList.delete (fst v) ev)))"

record CachedBlockAllocator =
  c_device :: Device
  c_block_size :: nat
  c_num_blocks :: nat
  current_num_blocks :: nat
  cached_blocks :: "(int \<times> ref) list"
  evictor :: Evictor
  default_hash_ctr :: int

definition new_CachedBlockAllocator :: "Device \<Rightarrow> nat \<Rightarrow> nat \<Rightarrow> CachedBlockAllocator" where
  "new_CachedBlockAllocator d bs nb =
     \<lparr>c_device = d, c_block_size = bs, c_num_blocks = nb, current_num_blocks = 0,
      cached_blocks = [], evictor = [], default_hash_ctr = 0\<rparr>"

definition cached_allocate_block ::
  "CachedBlockAllocator \<Rightarrow> heap \<Rightarrow> int \<Rightarrow> int \<Rightarrow> error + (ref \<times> CachedBlockAllocator \<times> heap)" where
  "cached_allocate_block a h hsh nh =
     (if current_num_blocks a = c_num_blocks a then
        (case evictor_evict (evictor a) h of
           Inl e \<Rightarrow> Inl e
         | Inr (b, ev') \<Rightarrow>
             Inr (b, a\<lparr>evictor := ev'\<rparr>, h[b := (h ! b)\<lparr>block_hash := hsh, num_hashed_tokens := nh\<rparr>]))
      else Inr (length h, a\<lparr>current_num_blocks := current_num_blocks a + 1\<rparr>,
                h @ [new_PhysicalTokenBlock (c_device a) (current_num_blocks a) (c_block_size a) hsh nh]))"

definition cached_allocate ::
  "CachedBlockAllocator \<Rightarrow> heap \<Rightarrow> int option \<Rightarrow> int \<Rightarrow> error + (ref \<times> CachedBlockAllocator \<times> heap)" where
  "cached_allocate a0 h hsh_opt nh =
     (let (hsh, a) = (case hsh_opt of
                        None \<Rightarrow> (default_hash_ctr a0, a0\<lparr>default_hash_ctr := default_hash_ctr a0 + 1\<rparr>)
                      | Some x \<Rightarrow> (x, a0))
      in if evictor_contains (evictor a) hsh then
           (if map_of (cached_blocks a) hsh \<noteq> None then Inl AssertionError
            else case evictor_remove (evictor a) hsh of
                   Inl e \<Rightarrow> Inl e
                 | Inr (b, ev') \<Rightarrow>
                     if ref_count (h ! b) \<noteq> 0 then Inl AssertionError
                     else if block_hash (h ! b) \<noteq> hsh then Inl AssertionError
                     else Inr (b, a\<lparr>evictor := ev', cached_blocks := AList.update hsh b (cached_blocks a)\<rparr>,
                               set_ref_count h b 1))
         else
           (case (case map_of (cached_blocks a) hsh of
                    Some b \<Rightarrow> Inr (b, a, h)
                  | None \<Rightarrow>
                      (case cached_allocate_block a h hsh nh of
                         Inl e \<Rightarrow> Inl e
                       | Inr (b, a', h') \<Rightarrow>
                           Inr (b, a'\<lparr>cached_blocks := AList.update hsh b (cached_blocks a')\<rparr>, h'))) of
              Inl e \<Rightarrow> Inl e
            | Inr (b, a', h') \<Rightarrow>
                if block_hash (h' ! b) \<noteq> hsh then Inl AssertionError
                else Inr (b, a', set_ref_count h' b (ref_count (h' ! b) + 1))))"

definition cached_free ::
  "CachedBlockAllocator \<Rightarrow> heap \<Rightarrow> ref \<Rightarrow> error option \<times> CachedBlockAllocator \<times> heap" where
  "cached_free a h b =
     (if ref_count (h ! b) = 0 then (Some DoubleFree, a, h)
      else let h' = set_ref_count h b (ref_count (h ! b) - 1)
           in if ref_count (h' ! b) = 0 then
                (if evictor_contains (evictor a) (block_hash (h' ! b)) then (Some AssertionError, a, h')
                 else let a' = a\<lparr>evictor := evictor_add (evictor a) h' b\<rparr>
                      in if map_of (cached_blocks a') (block_hash (h' ! b)) = None
                         then (Some KeyError, a', h')
                         else (None, a'\<lparr>cached_blocks := AList.delete (block_hash (h' ! b)) (cached_blocks a')\<rparr>, h'))
              else (None, a, h'))"

definition cached_get_num_free_blocks :: "CachedBlockAllocator \<Rightarrow> int" where
  "cached_get_num_free_blocks a =
     int (c_num_blocks a) - int (current_num_blocks a) + int (length (evictor a))"

definition cached_contains_block :: "CachedBlockAllocator \<Rightarrow> int \<Rightarrow> bool" where
  "cached_contains_block a hsh =
     (map_of (cached_blocks a) hsh \<noteq> None \<or> evictor_contains (evictor a) hsh)"

definition cached_update_hash ::
  "CachedBlockAllocator \<Rightarrow> heap \<Rightarrow> int \<Rightarrow> ref \<Rightarrow> error + (CachedBlockAllocator \<times> heap)" where
  "cached_update_hash a h hsh b =
     (if cached_contains_block a hsh then Inl AssertionError
      else let old_hash = block_hash (h ! b);
               h' = h[b := (h ! b)\<lparr>block_hash := hsh\<rparr>]
           in if map_of (cached_blocks a) old_hash = None then Inl KeyError
              else Inr (a\<lparr>cached_blocks := AList.update hsh b (AList.delete old_hash (cached_blocks a))\<rparr>, h'))"

section \<open>The allocator interface\<close>

text \<open>
  \<^verbatim>\<open>BlockAllocatorBase\<close> has the two implementations above; a call dispatches on the
  object's class.  The cached allocator ignores \<open>block_type\<close>; the uncached one ignores
  the hash arguments and raises \<^verbatim>\<open>NotImplementedError\<close> for the hash operations.
\<close>

datatype allocator = Uncached UncachedBlockAllocator | Cached CachedBlockAllocator

definition allocate ::
  "allocator \<Rightarrow> heap \<Rightarrow> int option \<Rightarrow> int \<Rightarrow> string \<Rightarrow> error + (ref \<times> allocator \<times> heap)" where
  "allocate al h hsh_opt nh block_type =
     (case al of
        Uncached a \<Rightarrow>
          (case uncached_allocate a h block_type of
             Inl e \<Rightarrow> Inl e | Inr (b, a', h') \<Rightarrow> Inr (b, Uncached a', h'))
      | Cached a \<Rightarrow>
          (case cached_allocate a h hsh_opt nh of
             Inl e \<Rightarrow> Inl e | Inr (b, a', h') \<Rightarrow> Inr (b, Cached a', h')))"

definition free :: "allocator \<Rightarrow> heap \<Rightarrow> ref \<Rightarrow> string \<Rightarrow> error option \<times> allocator \<times> heap" where
  "free al h b block_type =
     (case al of
        Uncached a \<Rightarrow> (case uncached_free a h b block_type of (e, a', h') \<Rightarrow> (e, Uncached a', h'))
      | Cached a \<Rightarrow> (case cached_free a h b of (e, a', h') \<Rightarrow> (e, Cached a', h')))"

definition get_num_free_blocks :: "allocator \<Rightarrow> string \<Rightarrow> error + int" where
  "get_num_free_blocks al block_type =
     (case al of
        Uncached a \<Rightarrow> uncached_get_num_free_blocks a block_type
      | Cached a \<Rightarrow> Inr (cached_get_num_free_blocks a))"

definition get_num_total_blocks :: "allocator \<Rightarrow> string \<Rightarrow> error + int" where
  "get_num_total_blocks al block_type =
     (case al of
        Uncached a \<Rightarrow> uncached_get_num_total_blocks a block_type
      | Cached a \<Rightarrow> Inr (int (c_num_blocks a)))"

definition contains_block :: "allocator \<Rightarrow> int \<Rightarrow> error + bool" where
  "contains_block al hsh =
     (case al of Uncached a \<Rightarrow> Inl NotImplementedError | Cached a \<Rightarrow> Inr (cached_contains_block a hsh))"

definition update_hash :: "allocator \<Rightarrow> heap \<Rightarrow> int \<Rightarrow> ref \<Rightarrow> error + (allocator \<times> heap)" where
  "update_hash al h hsh b =
     (case al of
        Uncached a \<Rightarrow> Inl NotImplementedError
      | Cached a \<Rightarrow> (case cached_update_hash a h hsh b of
                       Inl e \<Rightarrow> Inl e | Inr (a', h') \<Rightarrow> Inr (Cached a', h')))"

section \<open>Sequences and sequence groups\<close>

text \<open>
  \<^verbatim>\<open>SequenceData\<close>, \<^verbatim>\<open>Sequence\<close> and \<^verbatim>\<open>SequenceGroup\<close> of \<^verbatim>\<open>vllm/sequence.py\<close>, with the
  fields that the block manager, the scheduler and the policies read or write.  Token
  ids and counters are Python integers; log-probabilities and times are idealised as reals.
\<close>

record SequenceData =
  prompt_token_ids :: "int list"
  output_token_ids :: "int list"
  num_computed_tokens :: int
  stage :: SequenceStage

definition new_SequenceData :: "int list \<Rightarrow> SequenceData" where
  "new_SequenceData prompt =
     \<lparr>prompt_token_ids = prompt, output_token_ids = [], num_computed_tokens = 0, stage = PREFILL\<rparr>"

definition data_get_len :: "SequenceData \<Rightarrow> nat" where
  "data_get_len d = length (output_token_ids d) + length (prompt_token_ids d)"


record Sequence =
  seq_id :: nat
  seq_block_size :: nat
  seq_data :: SequenceData
  seq_lora_int_id :: int
  seq_type :: SequenceType
  status :: SequenceStatus
  eos_token_prob :: "real list"
  eos_token_prob_pos :: "int list"
  swapped_out_block_nums :: int
  eos_prob_estimation_window :: nat
  min_eos_rank :: int
  default_eos_token_prob :: real

definition new_Sequence :: "nat \<Rightarrow> int list \<Rightarrow> nat \<Rightarrow> int \<Rightarrow> Sequence" where
  "new_Sequence sid prompt bs lora =
     \<lparr>seq_id = sid, seq_block_size = bs, seq_data = new_SequenceData prompt,
      seq_lora_int_id = lora, seq_type = NORMAL, status = WAITING,
      eos_token_prob = [], eos_token_prob_pos = [], swapped_out_block_nums = 0,
      eos_prob_estimation_window = 15, min_eos_rank = -1, default_eos_token_prob = 1 / 10\<rparr>"

definition get_len :: "Sequence \<Rightarrow> nat" where
  "get_len s = data_get_len (seq_data s)"


text \<open>
  \<^verbatim>\<open>n_blocks = math.ceil(self.get_len() / self.block_size)\<close>; the division raises
  \<^verbatim>\<open>ZeroDivisionError\<close> for a block size of 0.
\<close>

definition n_blocks :: "Sequence \<Rightarrow> error + nat" where
  "n_blocks s =
     (if seq_block_size s = 0 then Inl ZeroDivisionError
      else Inr ((get_len s + seq_block_size s - 1) div seq_block_size s))"

definition is_finished :: "Sequence \<Rightarrow> bool" where
  "is_finished s = status_is_finished (status s)"



definition update_swapped_out_block_nums :: "Sequence \<Rightarrow> int \<Rightarrow> error + Sequence" where
  "update_swapped_out_block_nums s n =
     (case n_blocks s of
        Inl e \<Rightarrow> Inl e
      | Inr nb \<Rightarrow> Inr (s\<lparr>swapped_out_block_nums := min (int nb) (swapped_out_block_nums s + n)\<rparr>))"

definition reset_swapped_out_block_ratio :: "Sequence \<Rightarrow> Sequence" where
  "reset_swapped_out_block_ratio s = s\<lparr>swapped_out_block_nums := 0\<rparr>"

definition get_swapped_out_block_nums :: "Sequence \<Rightarrow> int" where
  "get_swapped_out_block_nums s = swapped_out_block_nums s"

definition num_hashed_tokens_of_block :: "Sequence \<Rightarrow> int \<Rightarrow> int" where
  "num_hashed_tokens_of_block s logical_idx =
     logical_idx * int (seq_block_size s) + int (seq_block_size s)"

text \<open>
  The fields of \<^verbatim>\<open>SamplingParams\<close> (\<^verbatim>\<open>vllm.sampling_params\<close>, not among the sources) that
  the modelled code reads.
\<close>

record SamplingParams =
  best_of :: int
  use_beam_search :: bool
  max_tokens :: "int option"
  logprobs :: "int option"
  prompt_logprobs :: "int option"

record SequenceGroup =
  request_id :: string
  seqs_dict :: "Sequence list"
  sampling_params :: "SamplingParams option"
  arrival_time :: real
  first_scheduled_time :: "real option"
  waiting_iter_nums :: int
  lora_request :: "int option"
  encoder_seq :: "Sequence option"
  current_priority :: "int option"
  promoted :: int
  priority_rate :: real
  max_length :: "int option"
  vocab_size :: int

text \<open>
  \<^verbatim>\<open>SequenceGroup.__init__\<close>.  \<open>seqs_dict\<close> is kept as the list of its values in insertion
  order (the key of each value is its \<open>seq_id\<close>).
\<close>

definition new_SequenceGroup ::
  "string \<Rightarrow> Sequence list \<Rightarrow> real \<Rightarrow> SamplingParams option \<Rightarrow> int option \<Rightarrow> Sequence option \<Rightarrow> int
     \<Rightarrow> SequenceGroup" where
  "new_SequenceGroup rid seqs arrival sp lora enc vocab =
     \<lparr>request_id = rid, seqs_dict = seqs, sampling_params = sp, arrival_time = arrival,
      first_scheduled_time = None, waiting_iter_nums = 0, lora_request = lora,
      encoder_seq = enc, current_priority = None, promoted = 0, priority_rate = 1,
      max_length = (case sp of Some p \<Rightarrow> max_tokens p | None \<Rightarrow> Some 10240),
      vocab_size = vocab\<rparr>"

definition get_seqs :: "SequenceGroup \<Rightarrow> SequenceStatus option \<Rightarrow> Sequence list" where
  "get_seqs g st =
     (case st of None \<Rightarrow> seqs_dict g
      | Some x \<Rightarrow> filter (\<lambda>s. status s = x) (seqs_dict g))"

definition num_seqs :: "SequenceGroup \<Rightarrow> SequenceStatus option \<Rightarrow> nat" where
  "num_seqs g st = (case st of None \<Rightarrow> length (seqs_dict g) | Some x \<Rightarrow> length (get_seqs g (Some x)))"

definition is_encoder_decoder :: "SequenceGroup \<Rightarrow> bool" where
  "is_encoder_decoder g = (encoder_seq g \<noteq> None)"

definition get_encoder_seq :: "SequenceGroup \<Rightarrow> Sequence option" where
  "get_encoder_seq g = encoder_seq g"








section \<open>BlockSpaceManagerV1\<close>

text \<open>
  The manager of \<^verbatim>\<open>vllm/core/block_manager_v1.py\<close>.  Its dictionaries are association
  lists in insertion order; \<open>heap\<close> holds the block objects that its two allocators
  created.
\<close>

type_synonym BlockTable = "ref list"

record BlockSpaceManagerV1 =
  bm_block_size :: nat
  num_total_gpu_blocks :: int
  num_total_cpu_blocks :: int
  num_shared_blocks :: int
  block_sliding_window :: "nat option"
  watermark_blocks :: int
  enable_caching :: bool
  gpu_allocator :: allocator
  cpu_allocator :: allocator
  block_tables :: "(nat \<times> BlockTable) list"
  shared_block_tables :: "(nat \<times> BlockTable) list"
  gpu_block_capacity :: int
  cross_block_tables :: "(string \<times> BlockTable) list"
  heap :: heap

text \<open>
  \<^verbatim>\<open>BlockSpaceManagerV1.__init__\<close>.  The watermark is a fraction of the GPU blocks;
  \<^verbatim>\<open>int(watermark * num_gpu_blocks)\<close> truncates a non-negative product downwards.
\<close>

definition new_BlockSpaceManagerV1 ::
  "nat \<Rightarrow> nat \<Rightarrow> nat \<Rightarrow> nat \<Rightarrow> real \<Rightarrow> nat option \<Rightarrow> bool \<Rightarrow> error + BlockSpaceManagerV1" where
  "new_BlockSpaceManagerV1 bs num_gpu num_cpu num_shared watermark sliding_window caching =
     (if caching \<and> sliding_window \<noteq> None then Inl NotImplementedError
      else if sliding_window \<noteq> None \<and> bs = 0 then Inl ZeroDivisionError
      else if \<not> watermark \<ge> 0 then Inl AssertionError
      else
        let bsw = (case sliding_window of None \<Rightarrow> None
                   | Some w \<Rightarrow> Some (nat \<lceil>real w / real bs\<rceil>));
            wb = \<lfloor>watermark * real num_gpu\<rfloor>;
            (ga, h1) = (if caching then (Cached (new_CachedBlockAllocator GPU bs num_gpu), [])
                        else (case new_UncachedBlockAllocator GPU bs num_gpu num_shared [] of
                                (a, h) \<Rightarrow> (Uncached a, h)));
            (ca, h2) = (if caching then (Cached (new_CachedBlockAllocator CPU bs num_cpu), h1)
                        else (case new_UncachedBlockAllocator CPU bs num_cpu 0 h1 of
                                (a, h) \<Rightarrow> (Uncached a, h)))
        in Inr \<lparr>bm_block_size = bs, num_total_gpu_blocks = int num_gpu,
                num_total_cpu_blocks = int num_cpu, num_shared_blocks = int num_shared,
                block_sliding_window = bsw, watermark_blocks = wb, enable_caching = caching,
                gpu_allocator = ga, cpu_allocator = ca, block_tables = [],
                shared_block_tables = [],
                gpu_block_capacity = int num_gpu - wb - int num_shared,
                cross_block_tables = [], heap = h2\<rparr>)"

definition get_seq_num_required_blocks :: "Sequence option \<Rightarrow> error + int" where
  "get_seq_num_required_blocks so =
     (case so of None \<Rightarrow> Inr 0
      | Some s \<Rightarrow> (case n_blocks s of Inl e \<Rightarrow> Inl e | Inr n \<Rightarrow> Inr (int n)))"

text \<open>
  The local \<^verbatim>\<open>num_required_blocks\<close> of \<^verbatim>\<open>can_allocate\<close>: the blocks of the first
  waiting sequence plus those of the encoder sequence, capped by the sliding window.
\<close>

definition num_required_blocks :: "BlockSpaceManagerV1 \<Rightarrow> SequenceGroup \<Rightarrow> error + int" where
  "num_required_blocks bm g =
     (case get_seqs g (Some WAITING) of
        [] \<Rightarrow> Inl IndexError
      | s # _ \<Rightarrow>
          (case get_seq_num_required_blocks (Some s) of
             Inl e \<Rightarrow> Inl e
           | Inr self_n \<Rightarrow>
               (case get_seq_num_required_blocks (get_encoder_seq g) of
                  Inl e \<Rightarrow> Inl e
                | Inr cross_n \<Rightarrow>
                    (case block_sliding_window bm of
                       None \<Rightarrow> Inr (self_n + cross_n)
                     | Some w \<Rightarrow> Inr (min (self_n + cross_n) (int w))))))"

text \<open>
  \<^verbatim>\<open>can_allocate\<close>.  Its first statement calls
  \<^verbatim>\<open>check_no_caching_or_swa_for_blockmgr_encdec\<close> (\<^verbatim>\<open>vllm.core.block.utils\<close>, not among
  the sources), which either raises or returns; it is the parameter \<open>chk\<close>.
\<close>

definition can_allocate ::
  "(BlockSpaceManagerV1 \<Rightarrow> SequenceGroup \<Rightarrow> error option) \<Rightarrow> BlockSpaceManagerV1 \<Rightarrow> SequenceGroup
     \<Rightarrow> bool \<Rightarrow> error + AllocStatus" where
  "can_allocate chk bm g shared =
     (case chk bm g of
        Some e \<Rightarrow> Inl e
      | None \<Rightarrow>
          (case num_required_blocks bm g of
             Inl e \<Rightarrow> Inl e
           | Inr need \<Rightarrow>
               if shared then
                 (case get_num_free_blocks (gpu_allocator bm) ''shared'' of
                    Inl e \<Rightarrow> Inl e
                  | Inr num_free \<Rightarrow> if num_free - need < 0 then Inr LATER else Inr OK)
               else
                 (case get_num_free_blocks (gpu_allocator bm) ''normal'' of
                    Inl e \<Rightarrow> Inl e
                  | Inr num_free \<Rightarrow>
                      if gpu_block_capacity bm - need < 0 then Inr NEVER
                      else if num_free - need \<ge> watermark_blocks bm then Inr OK
                      else Inr LATER)))"

definition can_allocate_infer :: "BlockSpaceManagerV1 \<Rightarrow> int \<Rightarrow> error + bool" where
  "can_allocate_infer bm required_block_size =
     (case get_num_total_blocks (gpu_allocator bm) ''normal'' of
        Inl e \<Rightarrow> Inl e
      | Inr num_total \<Rightarrow> Inr (num_total - required_block_size \<ge> watermark_blocks bm))"

subsection \<open>Example states\<close>

definition ex_manager :: BlockSpaceManagerV1 where
  "ex_manager =
     (case new_BlockSpaceManagerV1 16 10 4 4 0 None False of Inr bm \<Rightarrow> bm)"

definition ex_prompt_group :: "nat \<Rightarrow> SequenceGroup" where
  "ex_prompt_group n =
     new_SequenceGroup ''r1'' [new_Sequence 0 (replicate n 7) 16 0] 0 None None None 32000"

section \<open>Block-manager operations\<close>

text \<open>
  Python's slice indices: a negative index counts from the end, and both ends are clipped
  to the list.  \<open>py_slice xs a b\<close> is \<^verbatim>\<open>xs[a:b]\<close>, and \<open>py_slice_assign xs a b ys\<close> is the list
  after \<^verbatim>\<open>xs[a:b] = ys\<close>.
\<close>

definition py_clip :: "nat \<Rightarrow> int \<Rightarrow> nat" where
  "py_clip n i = (if i < 0 then nat (max 0 (int n + i)) else min (nat i) n)"

definition py_slice :: "'a list \<Rightarrow> int \<Rightarrow> int \<Rightarrow> 'a list" where
  "py_slice xs a b =
     (let a' = py_clip (length xs) a; b' = py_clip (length xs) b
      in take (b' - a') (drop a' xs))"

definition py_slice_assign :: "'a list \<Rightarrow> int \<Rightarrow> int \<Rightarrow> 'a list \<Rightarrow> 'a list" where
  "py_slice_assign xs a b ys =
     (let a' = py_clip (length xs) a; b' = py_clip (length xs) b
      in take a' xs @ ys @ drop (max a' b') xs)"

text \<open>
  Plumbing: a call on \<^verbatim>\<open>self.gpu_allocator\<close> or \<^verbatim>\<open>self.cpu_allocator\<close> reads and writes
  the allocator and the block objects held by the manager.
\<close>

definition get_allocator :: "BlockSpaceManagerV1 \<Rightarrow> Device \<Rightarrow> allocator" where
  "get_allocator bm d = (case d of GPU \<Rightarrow> gpu_allocator bm | CPU \<Rightarrow> cpu_allocator bm)"

definition set_allocator :: "BlockSpaceManagerV1 \<Rightarrow> Device \<Rightarrow> allocator \<Rightarrow> heap \<Rightarrow> BlockSpaceManagerV1" where
  "set_allocator bm d al h =
     (case d of GPU \<Rightarrow> bm\<lparr>gpu_allocator := al, heap := h\<rparr>
      | CPU \<Rightarrow> bm\<lparr>cpu_allocator := al, heap := h\<rparr>)"

definition bm_allocate ::
  "BlockSpaceManagerV1 \<Rightarrow> Device \<Rightarrow> int option \<Rightarrow> int \<Rightarrow> string \<Rightarrow> error + (ref \<times> BlockSpaceManagerV1)" where
  "bm_allocate bm d hsh_opt nh block_type =
     (case allocate (get_allocator bm d) (heap bm) hsh_opt nh block_type of
        Inl e \<Rightarrow> Inl e
      | Inr (b, al, h) \<Rightarrow> Inr (b, set_allocator bm d al h))"

definition bm_free :: "BlockSpaceManagerV1 \<Rightarrow> Device \<Rightarrow> ref \<Rightarrow> string \<Rightarrow> error + BlockSpaceManagerV1" where
  "bm_free bm d b block_type =
     (case free (get_allocator bm d) (heap bm) b block_type of
        (Some e, al, h) \<Rightarrow> Inl e
      | (None, al, h) \<Rightarrow> Inr (set_allocator bm d al h))"

definition other_device :: "Device \<Rightarrow> Device" where
  "other_device d = (case d of GPU \<Rightarrow> CPU | CPU \<Rightarrow> GPU)"

text \<open>
  \<^verbatim>\<open>Sequence.hash_of_block\<close> applies Python's built-in \<^verbatim>\<open>hash\<close> to the prefix tokens and
  the LoRA id; the built-in is the parameter \<open>hashf\<close>.
\<close>

type_synonym hash_fun = "(int list \<times> int list option) \<times> int \<Rightarrow> int"

definition get_prefix_token_ids :: "SequenceData \<Rightarrow> int \<Rightarrow> int list \<times> int list option" where
  "get_prefix_token_ids d num_tokens =
     (if num_tokens > int (length (prompt_token_ids d))
      then (prompt_token_ids d,
            Some (py_slice (output_token_ids d) 0 (num_tokens - int (length (prompt_token_ids d)))))
      else (py_slice (prompt_token_ids d) 0 num_tokens, None))"

definition hash_of_block :: "hash_fun \<Rightarrow> Sequence \<Rightarrow> int \<Rightarrow> int" where
  "hash_of_block hashf s logical_idx =
     hashf (get_prefix_token_ids (seq_data s) (num_hashed_tokens_of_block s logical_idx),
            seq_lora_int_id s)"

definition is_last_block_full :: "Sequence \<Rightarrow> error + bool" where
  "is_last_block_full s =
     (let token_ids_len = data_get_len (seq_data s)
      in if token_ids_len > 0
         then (if seq_block_size s = 0 then Inl ZeroDivisionError
               else Inr (token_ids_len mod seq_block_size s = 0))
         else Inr False)"

text \<open>
  \<^verbatim>\<open>_allocate_last_physical_block\<close>.  Without caching the block comes from the shared or
  the normal free list according to the sequence type.  With caching, the argument
  \<^verbatim>\<open>block_type\<close> is \<^verbatim>\<open>'shared'\<close> or \<^verbatim>\<open>None\<close>; the latter is written \<open>''None''\<close> (the
  cached allocator ignores it, the uncached one rejects it as any unknown type).
\<close>

definition allocate_last_physical_block ::
  "hash_fun \<Rightarrow> BlockSpaceManagerV1 \<Rightarrow> Sequence \<Rightarrow> error + (ref \<times> BlockSpaceManagerV1)" where
  "allocate_last_physical_block hashf bm s =
     (if \<not> enable_caching bm then
        (case seq_type s of
           TEMP \<Rightarrow> bm_allocate bm GPU None 0 ''shared''
         | NORMAL \<Rightarrow> bm_allocate bm GPU None 0 ''normal'')
      else
        (case n_blocks s of
           Inl e \<Rightarrow> Inl e
         | Inr nb \<Rightarrow>
             (case is_last_block_full s of
                Inl e \<Rightarrow> Inl e
              | Inr full \<Rightarrow>
                  let block_hash_opt = (if full then Some (hash_of_block hashf s (int nb - 1)) else None);
                      nh = num_hashed_tokens_of_block s (int nb - 1)
                  in (case bm_allocate bm GPU block_hash_opt nh
                             (if seq_type s = TEMP then ''shared'' else ''None'') of
                        Inl e \<Rightarrow> Inl e
                      | Inr (new_block, bm') \<Rightarrow>
                          if block_hash_opt = None \<and> ref_count (heap bm' ! new_block) \<noteq> 1
                          then Inl AssertionError
                          else Inr (new_block, bm')))))"

definition promote_last_block ::
  "hash_fun \<Rightarrow> BlockSpaceManagerV1 \<Rightarrow> Sequence \<Rightarrow> ref \<Rightarrow> error + (ref \<times> BlockSpaceManagerV1)" where
  "promote_last_block hashf bm s last_block =
     (if \<not> enable_caching bm then Inl AssertionError
      else case n_blocks s of
             Inl e \<Rightarrow> Inl e
           | Inr nb \<Rightarrow>
               let new_hash = hash_of_block hashf s (int nb - 1)
               in (case contains_block (gpu_allocator bm) new_hash of
                     Inl e \<Rightarrow> Inl e
                   | Inr True \<Rightarrow>
                       (case bm_free bm GPU last_block ''normal'' of
                          Inl e \<Rightarrow> Inl e
                        | Inr bm' \<Rightarrow> bm_allocate bm' GPU (Some new_hash) 0 ''normal'')
                   | Inr False \<Rightarrow>
                       (case update_hash (gpu_allocator bm) (heap bm) new_hash last_block of
                          Inl e \<Rightarrow> Inl e
                        | Inr (al, h) \<Rightarrow> Inr (last_block, set_allocator bm GPU al h))))"

definition maybe_promote_last_block ::
  "hash_fun \<Rightarrow> BlockSpaceManagerV1 \<Rightarrow> Sequence \<Rightarrow> ref \<Rightarrow> error + (ref \<times> BlockSpaceManagerV1)" where
  "maybe_promote_last_block hashf bm s last_block =
     (case is_last_block_full s of
        Inl e \<Rightarrow> Inl e
      | Inr True \<Rightarrow> promote_last_block hashf bm s last_block
      | Inr False \<Rightarrow> Inr (last_block, bm))"

text \<open>
  The block table of a sequence: \<^verbatim>\<open>shared_block_tables\<close> for a \<open>TEMP\<close> sequence,
  \<^verbatim>\<open>block_tables\<close> otherwise.
\<close>

definition seq_table :: "BlockSpaceManagerV1 \<Rightarrow> Sequence \<Rightarrow> BlockTable option" where
  "seq_table bm s =
     (if seq_type s = TEMP then map_of (shared_block_tables bm) (seq_id s)
      else map_of (block_tables bm) (seq_id s))"

definition set_seq_table :: "BlockSpaceManagerV1 \<Rightarrow> Sequence \<Rightarrow> BlockTable \<Rightarrow> BlockSpaceManagerV1" where
  "set_seq_table bm s t =
     (if seq_type s = TEMP
      then bm\<lparr>shared_block_tables := AList.update (seq_id s) t (shared_block_tables bm)\<rparr>
      else bm\<lparr>block_tables := AList.update (seq_id s) t (block_tables bm)\<rparr>)"

text \<open>
  The part of \<^verbatim>\<open>append_slots\<close> after the new-logical-block test: append the token to the
  last physical block, copying it first when it is shared.
\<close>

definition append_to_last_block ::
  "hash_fun \<Rightarrow> BlockSpaceManagerV1 \<Rightarrow> Sequence \<Rightarrow> BlockTable \<Rightarrow> error + ((nat \<times> nat) list \<times> BlockSpaceManagerV1)" where
  "append_to_last_block hashf bm s block_table =
     (if block_table = [] then Inl IndexError
      else
        let last_block = last block_table
        in if device (heap bm ! last_block) \<noteq> GPU then Inl AssertionError
           else if ref_count (heap bm ! last_block) = 1 then
             (if enable_caching bm then
                (case maybe_promote_last_block hashf bm s last_block of
                   Inl e \<Rightarrow> Inl e
                 | Inr (maybe_new_block, bm') \<Rightarrow>
                     Inr ([], set_seq_table bm' s (butlast block_table @ [maybe_new_block])))
              else Inr ([], bm))
           else
             (case allocate_last_physical_block hashf bm s of
                Inl e \<Rightarrow> Inl e
              | Inr (new_block, bm') \<Rightarrow>
                  let bm'' = set_seq_table bm' s (butlast block_table @ [new_block])
                  in (case bm_free bm'' GPU last_block
                             (if seq_type s = TEMP then ''shared'' else ''normal'') of
                        Inl e \<Rightarrow> Inl e
                      | Inr bm3 \<Rightarrow>
                          Inr ([(block_number (heap bm3 ! last_block),
                                 block_number (heap bm3 ! new_block))], bm3))))"

definition append_slots ::
  "hash_fun \<Rightarrow> BlockSpaceManagerV1 \<Rightarrow> Sequence \<Rightarrow> error + ((nat \<times> nat) list \<times> BlockSpaceManagerV1)" where
  "append_slots hashf bm s =
     (case n_blocks s of
        Inl e \<Rightarrow> Inl e
      | Inr nb \<Rightarrow>
          (case seq_table bm s of
             None \<Rightarrow> Inl KeyError
           | Some block_table \<Rightarrow>
               if length block_table < nb then
                 (if length block_table \<noteq> nb - 1 then Inl AssertionError
                  else
                    (case block_sliding_window bm of
                       Some w \<Rightarrow>
                         if w \<noteq> 0 \<and> length block_table \<ge> w then
                           (let block_table' = block_table @ [block_table ! (length block_table mod w)]
                            in append_to_last_block hashf (set_seq_table bm s block_table') s block_table')
                         else
                           (case allocate_last_physical_block hashf bm s of
                              Inl e \<Rightarrow> Inl e
                            | Inr (new_block, bm') \<Rightarrow>
                                Inr ([], set_seq_table bm' s (block_table @ [new_block])))
                     | None \<Rightarrow>
                         (case allocate_last_physical_block hashf bm s of
                            Inl e \<Rightarrow> Inl e
                          | Inr (new_block, bm') \<Rightarrow>
                              Inr ([], set_seq_table bm' s (block_table @ [new_block])))))
               else append_to_last_block hashf bm s block_table))"

text \<open>
  \<^verbatim>\<open>fork\<close>: the child receives a copy of the parent's table and every distinct block
  of it one more reference.
\<close>

definition fork :: "BlockSpaceManagerV1 \<Rightarrow> Sequence \<Rightarrow> Sequence \<Rightarrow> BlockSpaceManagerV1" where
  "fork bm parent_seq child_seq =
     (case map_of (block_tables bm) (seq_id parent_seq) of
        None \<Rightarrow> bm
      | Some src_block_table \<Rightarrow>
          bm\<lparr>block_tables := AList.update (seq_id child_seq) src_block_table (block_tables bm),
             heap := foldl (\<lambda>h b. set_ref_count h b (ref_count (h ! b) + 1)) (heap bm)
                       (remdups src_block_table)\<rparr>)"

text \<open>
  For stating results about the uncached allocator: the block type that \<^verbatim>\<open>append_slots\<close>
  uses for a sequence, the free list of that type, and the allocator after popping it.
\<close>

definition block_type_of :: "Sequence \<Rightarrow> string" where
  "block_type_of s = (if seq_type s = TEMP then ''shared'' else ''normal'')"

definition free_list_of :: "UncachedBlockAllocator \<Rightarrow> Sequence \<Rightarrow> ref list" where
  "free_list_of ua s = (if seq_type s = TEMP then free_shared_blocks ua else free_blocks ua)"

definition pop_free_list_of :: "UncachedBlockAllocator \<Rightarrow> Sequence \<Rightarrow> UncachedBlockAllocator" where
  "pop_free_list_of ua s =
     (if seq_type s = TEMP then ua\<lparr>free_shared_blocks := butlast (free_shared_blocks ua)\<rparr>
      else ua\<lparr>free_blocks := butlast (free_blocks ua)\<rparr>)"

definition window_reuses :: "BlockSpaceManagerV1 \<Rightarrow> BlockTable \<Rightarrow> bool" where
  "window_reuses bm block_table =
     (case block_sliding_window bm of None \<Rightarrow> False
      | Some w \<Rightarrow> w \<noteq> 0 \<and> length block_table \<ge> w)"

text \<open>
  Example: block size 4, four GPU blocks, two CPU blocks.  Sequence 0 holds one block and
  has been forked into sequence 1, so the block is shared; both sequences hold three
  tokens.
\<close>

definition ex_seq :: "nat \<Rightarrow> nat \<Rightarrow> Sequence" where
  "ex_seq sid n = (new_Sequence sid (replicate n 7) 4 0)\<lparr>status := RUNNING\<rparr>"

definition ex_small_manager :: "nat option \<Rightarrow> bool \<Rightarrow> BlockSpaceManagerV1" where
  "ex_small_manager sliding_window caching =
     (case new_BlockSpaceManagerV1 4 4 2 0 0 sliding_window caching of Inr bm \<Rightarrow> bm)"

definition ex_shared_state :: "bool \<Rightarrow> BlockSpaceManagerV1" where
  "ex_shared_state caching =
     (case bm_allocate (ex_small_manager None caching) GPU (Some 5) 4 ''normal'' of
        Inr (b, bm) \<Rightarrow> fork (set_seq_table bm (ex_seq 0 3) [b]) (ex_seq 0 3) (ex_seq 1 3))"

text \<open>
  Example: a sliding window of 8 tokens (2 blocks); sequence 0 holds two blocks and nine
  tokens.
\<close>

definition ex_window_state :: BlockSpaceManagerV1 where
  "ex_window_state =
     (case bm_allocate (ex_small_manager (Some 8) False) GPU None 0 ''normal'' of
        Inr (b1, bm1) \<Rightarrow>
          (case bm_allocate bm1 GPU None 0 ''normal'' of
             Inr (b2, bm2) \<Rightarrow> set_seq_table bm2 (ex_seq 0 9) [b1, b2]))"

text \<open>
  Example with prefix caching and block size 1: sequences 0 and 1 share their first
  block; sequence 1, now of two tokens, has already appended its second block.  The
  hash function counts the hashed tokens.
\<close>

definition ex_hash :: hash_fun where
  "ex_hash = (\<lambda>((p, out), l). 10 + int (length p) + (case out of None \<Rightarrow> 0 | Some ys \<Rightarrow> int (length ys)))"

definition ex_seq1 :: "nat \<Rightarrow> nat \<Rightarrow> Sequence" where
  "ex_seq1 sid n = (new_Sequence sid (replicate n 7) 1 0)\<lparr>status := RUNNING\<rparr>"

definition ex_cached_state :: BlockSpaceManagerV1 where
  "ex_cached_state =
     (case new_BlockSpaceManagerV1 1 4 2 0 0 None True of
        Inr bm0 \<Rightarrow>
          (case bm_allocate bm0 GPU (Some (hash_of_block ex_hash (ex_seq1 0 1) 0)) 1 ''normal'' of
             Inr (b, bm1) \<Rightarrow>
               (case append_slots ex_hash
                       (fork (set_seq_table bm1 (ex_seq1 0 1) [b]) (ex_seq1 0 1) (ex_seq1 1 1))
                       (ex_seq1 1 2) of
                  Inr (cows, bm2) \<Rightarrow> bm2)))"

section \<open>Swapping\<close>

text \<open>
  \<^verbatim>\<open>_swap_block_table(block_table, src_allocator, dest_allocator, mapping)\<close>.  The two
  allocators are always the manager's own; \<open>src\<close> names the device of the source
  allocator, the destination allocator is the other one.  \<open>mapping\<close> is a dictionary
  keyed by block objects, kept in insertion order.
\<close>

type_synonym block_mapping = "(ref \<times> ref) list"

fun swap_block_table ::
  "BlockSpaceManagerV1 \<Rightarrow> BlockTable \<Rightarrow> Device \<Rightarrow> block_mapping
     \<Rightarrow> error + (BlockTable \<times> block_mapping \<times> BlockSpaceManagerV1)" where
  "swap_block_table bm [] src mapping = Inr ([], mapping, bm)"
| "swap_block_table bm (from_block # rest) src mapping =
     (case (case map_of mapping from_block of
              Some to_block \<Rightarrow>
                Inr (to_block, mapping,
                     bm\<lparr>heap := set_ref_count (heap bm) to_block (ref_count (heap bm ! to_block) + 1)\<rparr>)
            | None \<Rightarrow>
                (case bm_allocate bm (other_device src) (Some (block_hash (heap bm ! from_block)))
                        (num_hashed_tokens (heap bm ! from_block)) ''normal'' of
                   Inl e \<Rightarrow> Inl e
                 | Inr (to_block, bm') \<Rightarrow>
                     Inr (to_block, AList.update from_block to_block mapping, bm'))) of
        Inl e \<Rightarrow> Inl e
      | Inr (to_block, mapping', bm1) \<Rightarrow>
          (case bm_free bm1 src from_block ''normal'' of
             Inl e \<Rightarrow> Inl e
           | Inr bm2 \<Rightarrow>
               (case swap_block_table bm2 rest src mapping' of
                  Inl e \<Rightarrow> Inl e
                | Inr (new_block_table, mapping'', bm3) \<Rightarrow>
                    Inr (to_block # new_block_table, mapping'', bm3))))"

text \<open>The list of block-number pairs that \<^verbatim>\<open>swap_in\<close> and \<^verbatim>\<open>swap_out\<close> return.\<close>

definition mapping_numbers :: "heap \<Rightarrow> block_mapping \<Rightarrow> (nat \<times> nat) list" where
  "mapping_numbers h mapping = map (\<lambda>(k, v). (block_number (h ! k), block_number (h ! v))) mapping"

text \<open>
  A sequence object of a group is mutated in place; the group afterwards holds the
  mutated object under the same \<open>seq_id\<close>.
\<close>

definition put_seq :: "Sequence \<Rightarrow> Sequence list \<Rightarrow> Sequence list" where
  "put_seq s' ss = map (\<lambda>x. if seq_id x = seq_id s' then s' else x) ss"

text \<open>The body of the loop of \<^verbatim>\<open>swap_out\<close> for one sequence.\<close>

definition swap_out_seq ::
  "BlockSpaceManagerV1 \<Rightarrow> Sequence \<Rightarrow> int \<Rightarrow> block_mapping
     \<Rightarrow> error + (Sequence \<times> block_mapping \<times> BlockSpaceManagerV1)" where
  "swap_out_seq bm s swap_out_block_nums mapping =
     (case map_of (block_tables bm) (seq_id s) of
        None \<Rightarrow> Inl KeyError
      | Some tbl \<Rightarrow>
          let block_table_length = int (length tbl)
          in if swap_out_block_nums > 0 then
               (let swapped_out_blocks_idx = get_swapped_out_block_nums s;
                    swapping_out_blocks_idx =
                      min (get_swapped_out_block_nums s + swap_out_block_nums) block_table_length
                in case update_swapped_out_block_nums s swap_out_block_nums of
                     Inl e \<Rightarrow> Inl e
                   | Inr s' \<Rightarrow>
                       (case swap_block_table bm
                               (py_slice tbl swapped_out_blocks_idx swapping_out_blocks_idx)
                               GPU mapping of
                          Inl e \<Rightarrow> Inl e
                        | Inr (swapped_out_blocks, mapping', bm') \<Rightarrow>
                            Inr (s', mapping',
                                 bm'\<lparr>block_tables :=
                                       AList.update (seq_id s)
                                         (py_slice_assign tbl swapped_out_blocks_idx
                                            swapping_out_blocks_idx swapped_out_blocks)
                                         (block_tables bm')\<rparr>)))
             else
               (case update_swapped_out_block_nums s block_table_length of
                  Inl e \<Rightarrow> Inl e
                | Inr s' \<Rightarrow>
                    (case swap_block_table bm tbl GPU mapping of
                       Inl e \<Rightarrow> Inl e
                     | Inr (swapped_out_blocks, mapping', bm') \<Rightarrow>
                         Inr (s', mapping',
                              bm'\<lparr>block_tables :=
                                    AList.update (seq_id s) swapped_out_blocks (block_tables bm')\<rparr>))))"

fun swap_out_seqs ::
  "BlockSpaceManagerV1 \<Rightarrow> Sequence list \<Rightarrow> int \<Rightarrow> block_mapping
     \<Rightarrow> error + (Sequence list \<times> block_mapping \<times> BlockSpaceManagerV1)" where
  "swap_out_seqs bm [] n mapping = Inr ([], mapping, bm)"
| "swap_out_seqs bm (s # ss) n mapping =
     (case swap_out_seq bm s n mapping of
        Inl e \<Rightarrow> Inl e
      | Inr (s', mapping', bm') \<Rightarrow>
          (case swap_out_seqs bm' ss n mapping' of
             Inl e \<Rightarrow> Inl e
           | Inr (ss', mapping'', bm'') \<Rightarrow> Inr (s' # ss', mapping'', bm'')))"

text \<open>The cross-attention table of an encoder-decoder group is swapped after the sequences.\<close>

definition swap_cross_table ::
  "BlockSpaceManagerV1 \<Rightarrow> SequenceGroup \<Rightarrow> Device \<Rightarrow> block_mapping
     \<Rightarrow> error + (block_mapping \<times> BlockSpaceManagerV1)" where
  "swap_cross_table bm g src mapping =
     (if is_encoder_decoder g then
        (case map_of (cross_block_tables bm) (request_id g) of
           None \<Rightarrow> Inl KeyError
         | Some tbl \<Rightarrow>
             (case swap_block_table bm tbl src mapping of
                Inl e \<Rightarrow> Inl e
              | Inr (tbl', mapping', bm') \<Rightarrow>
                  Inr (mapping',
                       bm'\<lparr>cross_block_tables :=
                             AList.update (request_id g) tbl' (cross_block_tables bm')\<rparr>)))
      else Inr (mapping, bm))"

definition swap_out ::
  "BlockSpaceManagerV1 \<Rightarrow> SequenceGroup \<Rightarrow> int
     \<Rightarrow> error + ((nat \<times> nat) list \<times> SequenceGroup \<times> BlockSpaceManagerV1)" where
  "swap_out bm g swap_out_block_nums =
     (case swap_out_seqs bm (get_seqs g (Some RUNNING) @ get_seqs g (Some PARTIAL_SWAPPED))
             swap_out_block_nums [] of
        Inl e \<Rightarrow> Inl e
      | Inr (ss', mapping, bm') \<Rightarrow>
          (case swap_cross_table bm' g GPU mapping of
             Inl e \<Rightarrow> Inl e
           | Inr (mapping', bm'') \<Rightarrow>
               Inr (mapping_numbers (heap bm'') mapping',
                    g\<lparr>seqs_dict := foldr put_seq ss' (seqs_dict g)\<rparr>, bm'')))"

text \<open>The body of the loop of \<^verbatim>\<open>swap_in\<close> for one sequence.\<close>

definition swap_in_seq ::
  "BlockSpaceManagerV1 \<Rightarrow> Sequence \<Rightarrow> block_mapping
     \<Rightarrow> error + (Sequence \<times> block_mapping \<times> BlockSpaceManagerV1)" where
  "swap_in_seq bm s mapping =
     (let s' = reset_swapped_out_block_ratio s
      in case map_of (block_tables bm) (seq_id s) of
           None \<Rightarrow> Inl KeyError
         | Some tbl \<Rightarrow>
             let swapped_in_block_indices =
                   filter (\<lambda>i. device (heap bm ! (tbl ! i)) = CPU) [0..<length tbl];
                 swapping_in_blocks =
                   (if swapped_in_block_indices = [] then tbl
                    else map (\<lambda>i. tbl ! i) swapped_in_block_indices)
             in (case swap_block_table bm swapping_in_blocks CPU mapping of
                   Inl e \<Rightarrow> Inl e
                 | Inr (swapped_in_blocks, mapping', bm') \<Rightarrow>
                     Inr (s', mapping',
                          bm'\<lparr>block_tables :=
                                AList.update (seq_id s)
                                  (if swapped_in_block_indices \<noteq> [] then
                                     foldl (\<lambda>t (block_indx, index_value).
                                              t[block_indx := swapped_in_blocks ! index_value])
                                       tbl (zip swapped_in_block_indices
                                              [0..<length swapped_in_block_indices])
                                   else swapped_in_blocks)
                                  (block_tables bm')\<rparr>)))"

fun swap_in_seqs ::
  "BlockSpaceManagerV1 \<Rightarrow> Sequence list \<Rightarrow> block_mapping
     \<Rightarrow> error + (Sequence list \<times> block_mapping \<times> BlockSpaceManagerV1)" where
  "swap_in_seqs bm [] mapping = Inr ([], mapping, bm)"
| "swap_in_seqs bm (s # ss) mapping =
     (case swap_in_seq bm s mapping of
        Inl e \<Rightarrow> Inl e
      | Inr (s', mapping', bm') \<Rightarrow>
          (case swap_in_seqs bm' ss mapping' of
             Inl e \<Rightarrow> Inl e
           | Inr (ss', mapping'', bm'') \<Rightarrow> Inr (s' # ss', mapping'', bm'')))"

definition swap_in ::
  "BlockSpaceManagerV1 \<Rightarrow> SequenceGroup
     \<Rightarrow> error + ((nat \<times> nat) list \<times> SequenceGroup \<times> BlockSpaceManagerV1)" where
  "swap_in bm g =
     (case swap_in_seqs bm (get_seqs g (Some SWAPPED) @ get_seqs g (Some PARTIAL_SWAPPED)) [] of
        Inl e \<Rightarrow> Inl e
      | Inr (ss', mapping, bm') \<Rightarrow>
          (case swap_cross_table bm' g CPU mapping of
             Inl e \<Rightarrow> Inl e
           | Inr (mapping', bm'') \<Rightarrow>
               Inr (mapping_numbers (heap bm'') mapping',
                    g\<lparr>seqs_dict := foldr put_seq ss' (seqs_dict g)\<rparr>, bm'')))"

text \<open>
  \<^verbatim>\<open>_get_physical_blocks\<close> collects the blocks of the unfinished sequences (and of the
  cross-attention table) in a set; its callers only take the size of the result.
\<close>

fun collect_tables :: "BlockSpaceManagerV1 \<Rightarrow> Sequence list \<Rightarrow> error + ref list" where
  "collect_tables bm [] = Inr []"
| "collect_tables bm (s # ss) =
     (if is_finished s then collect_tables bm ss
      else case map_of (block_tables bm) (seq_id s) of
             None \<Rightarrow> Inl KeyError
           | Some tbl \<Rightarrow>
               (case collect_tables bm ss of Inl e \<Rightarrow> Inl e | Inr bs \<Rightarrow> Inr (tbl @ bs)))"

definition get_physical_blocks :: "BlockSpaceManagerV1 \<Rightarrow> SequenceGroup \<Rightarrow> error + ref list" where
  "get_physical_blocks bm g =
     (case collect_tables bm (get_seqs g None) of
        Inl e \<Rightarrow> Inl e
      | Inr bs \<Rightarrow>
          if is_encoder_decoder g then
            (case map_of (cross_block_tables bm) (request_id g) of
               None \<Rightarrow> Inl KeyError
             | Some tbl \<Rightarrow> Inr (remdups (bs @ tbl)))
          else Inr (remdups bs))"

definition can_swap_out :: "BlockSpaceManagerV1 \<Rightarrow> SequenceGroup \<Rightarrow> error + bool" where
  "can_swap_out bm g =
     (case get_physical_blocks bm g of
        Inl e \<Rightarrow> Inl e
      | Inr blocks \<Rightarrow>
          (case get_num_free_blocks (cpu_allocator bm) ''normal'' of
             Inl e \<Rightarrow> Inl e
           | Inr num_free \<Rightarrow> Inr (int (length blocks) \<le> num_free)))"

definition can_swap_in :: "BlockSpaceManagerV1 \<Rightarrow> SequenceGroup \<Rightarrow> error + AllocStatus" where
  "can_swap_in bm g =
     (case get_physical_blocks bm g of
        Inl e \<Rightarrow> Inl e
      | Inr blocks \<Rightarrow>
          let num_swapped_seqs =
                int (num_seqs g (Some SWAPPED)) + int (num_seqs g (Some PARTIAL_SWAPPED))
                + (if is_encoder_decoder g then 1 else 0)
          in (case get_num_free_blocks (gpu_allocator bm) ''normal'' of
                Inl e \<Rightarrow> Inl e
              | Inr num_free_blocks \<Rightarrow>
                  let num_required = int (length blocks) + num_swapped_seqs
                  in (case get_num_total_blocks (gpu_allocator bm) ''normal'' of
                        Inl e \<Rightarrow> Inl e
                      | Inr num_total \<Rightarrow>
                          if num_total < num_required then Inr NEVER
                          else if num_free_blocks - num_required \<ge> watermark_blocks bm then Inr OK
                          else Inr LATER)))"

section \<open>Freeing a sequence\<close>

text \<open>
  \<^verbatim>\<open>_free_block_table\<close> frees each block of \<^verbatim>\<open>set(blocks_to_free)\<close>.  Python iterates the
  set in an unspecified order; the model visits the distinct blocks in table order.  The
  order only decides the order in which blocks enter the free lists.
\<close>

fun free_blocks_loop :: "BlockSpaceManagerV1 \<Rightarrow> ref list \<Rightarrow> string \<Rightarrow> error + BlockSpaceManagerV1" where
  "free_blocks_loop bm [] block_type = Inr bm"
| "free_blocks_loop bm (b # bs) block_type =
     (case (if device (heap bm ! b) = GPU then bm_free bm GPU b block_type
            else bm_free bm CPU b ''normal'') of
        Inl e \<Rightarrow> Inl e
      | Inr bm' \<Rightarrow> free_blocks_loop bm' bs block_type)"

definition free_block_table :: "BlockSpaceManagerV1 \<Rightarrow> BlockTable \<Rightarrow> string \<Rightarrow> error + BlockSpaceManagerV1" where
  "free_block_table bm tbl block_type =
     (let blocks_to_free =
            (case block_sliding_window bm of
               Some w \<Rightarrow> py_slice tbl (- int w) (int (length tbl))
             | None \<Rightarrow> tbl)
      in free_blocks_loop bm (remdups blocks_to_free) block_type)"

text \<open>\<^verbatim>\<open>BlockSpaceManagerV1.free(seq)\<close>.\<close>

definition manager_free :: "BlockSpaceManagerV1 \<Rightarrow> Sequence \<Rightarrow> error + BlockSpaceManagerV1" where
  "manager_free bm s =
     (if (map_of (block_tables bm) (seq_id s) = None \<and> seq_type s = NORMAL)
         \<or> (map_of (shared_block_tables bm) (seq_id s) = None \<and> seq_type s = TEMP)
      then Inr bm
      else (case seq_type s of
              TEMP \<Rightarrow>
                (case free_block_table bm (the (map_of (shared_block_tables bm) (seq_id s))) ''shared'' of
                   Inl e \<Rightarrow> Inl e
                 | Inr bm' \<Rightarrow>
                     Inr (bm'\<lparr>shared_block_tables := AList.delete (seq_id s) (shared_block_tables bm')\<rparr>))
            | NORMAL \<Rightarrow>
                (case free_block_table bm (the (map_of (block_tables bm) (seq_id s))) ''normal'' of
                   Inl e \<Rightarrow> Inl e
                 | Inr bm' \<Rightarrow>
                     Inr (bm'\<lparr>block_tables := AList.delete (seq_id s) (block_tables bm')\<rparr>))))"

section \<open>Scheduler\<close>

text \<open>
  The scheduler of \<^verbatim>\<open>vllm/core/.backup/scheduler.py\<close>: its three queues, the deadline
  flag, the configuration values read by the modelled methods, and its block manager
  (version \<open>v1\<close>).  The deques are lists, left end first.
\<close>

record Scheduler =
  chunked_prefill_enabled :: bool
  max_num_batched_tokens :: int
  cfg_max_num_seqs :: int
  lora_enabled :: bool
  reach_ddl :: bool
  block_manager :: BlockSpaceManagerV1
  waiting :: "SequenceGroup list"
  running :: "SequenceGroup list"
  swapped :: "SequenceGroup list"

definition add_seq_group :: "Scheduler \<Rightarrow> SequenceGroup \<Rightarrow> Scheduler" where
  "add_seq_group sch g = sch\<lparr>waiting := waiting sch @ [g]\<rparr>"


definition get_num_unfinished_seq_groups :: "Scheduler \<Rightarrow> nat" where
  "get_num_unfinished_seq_groups sch =
     length (waiting sch) + length (running sch) + length (swapped sch)"

definition free_seq :: "BlockSpaceManagerV1 \<Rightarrow> Sequence \<Rightarrow> error + BlockSpaceManagerV1" where
  "free_seq bm s = manager_free bm s"

subsection \<open>abort_seq_group\<close>

text \<open>
  The first inner loop of \<^verbatim>\<open>abort_seq_group\<close>: walk one queue, collecting each group whose
  id is still in \<open>request_ids\<close> and removing that id from the set; stop once the set is empty.
\<close>

fun collect_aborted :: "SequenceGroup list \<Rightarrow> string set \<Rightarrow> SequenceGroup list \<times> string set" where
  "collect_aborted [] request_ids = ([], request_ids)"
| "collect_aborted (g # gs) request_ids =
     (if request_ids = {} then ([], request_ids)
      else if request_id g \<in> request_ids then
        (case collect_aborted gs (request_ids - {request_id g}) of
           (aborted, ids') \<Rightarrow> (g # aborted, ids'))
      else collect_aborted gs request_ids)"

text \<open>
  The innermost loop: every unfinished sequence of an aborted group gets the status
  \<open>FINISHED_ABORTED\<close> and its blocks are freed.
\<close>

fun abort_seqs :: "BlockSpaceManagerV1 \<Rightarrow> Sequence list \<Rightarrow> error + (Sequence list \<times> BlockSpaceManagerV1)" where
  "abort_seqs bm [] = Inr ([], bm)"
| "abort_seqs bm (s # ss) =
     (if is_finished s then
        (case abort_seqs bm ss of Inl e \<Rightarrow> Inl e | Inr (ss', bm') \<Rightarrow> Inr (s # ss', bm'))
      else
        (case free_seq bm (s\<lparr>status := FINISHED_ABORTED\<rparr>) of
           Inl e \<Rightarrow> Inl e
         | Inr bm1 \<Rightarrow>
             (case abort_seqs bm1 ss of
                Inl e \<Rightarrow> Inl e
              | Inr (ss', bm') \<Rightarrow> Inr (s\<lparr>status := FINISHED_ABORTED\<rparr> # ss', bm'))))"

text \<open>
  The second inner loop: remove each collected group from the queue and abort its
  sequences.  The result carries the group objects as the loop leaves them; they are no
  longer in the queue.
\<close>

fun abort_groups ::
  "SequenceGroup list \<Rightarrow> BlockSpaceManagerV1 \<Rightarrow> SequenceGroup list
     \<Rightarrow> error + (SequenceGroup list \<times> SequenceGroup list \<times> BlockSpaceManagerV1)" where
  "abort_groups state_queue bm [] = Inr ([], state_queue, bm)"
| "abort_groups state_queue bm (g # gs) =
     (case abort_seqs bm (get_seqs g None) of
        Inl e \<Rightarrow> Inl e
      | Inr (ss', bm1) \<Rightarrow>
          (case abort_groups (remove1 g state_queue) bm1 gs of
             Inl e \<Rightarrow> Inl e
           | Inr (done, q', bm') \<Rightarrow> Inr (g\<lparr>seqs_dict := ss'\<rparr> # done, q', bm')))"

definition abort_in_queue ::
  "SequenceGroup list \<Rightarrow> BlockSpaceManagerV1 \<Rightarrow> string set
     \<Rightarrow> error + (SequenceGroup list \<times> SequenceGroup list \<times> BlockSpaceManagerV1 \<times> string set)" where
  "abort_in_queue state_queue bm request_ids =
     (case collect_aborted state_queue request_ids of
        (aborted_groups, ids') \<Rightarrow>
          (case abort_groups state_queue bm aborted_groups of
             Inl e \<Rightarrow> Inl e
           | Inr (done, q', bm') \<Rightarrow> Inr (done, q', bm', ids')))"

text \<open>
  \<^verbatim>\<open>abort_seq_group(request_id)\<close>; the argument is the list of ids (a single string is a
  one-element list).  The result is the scheduler together with the aborted group objects.
\<close>

definition abort_seq_group ::
  "Scheduler \<Rightarrow> string list \<Rightarrow> error + (SequenceGroup list \<times> Scheduler)" where
  "abort_seq_group sch rids =
     (case abort_in_queue (waiting sch) (block_manager sch) (set rids) of
        Inl e \<Rightarrow> Inl e
      | Inr (d1, w', bm1, ids1) \<Rightarrow>
          (case abort_in_queue (running sch) bm1 ids1 of
             Inl e \<Rightarrow> Inl e
           | Inr (d2, r', bm2, ids2) \<Rightarrow>
               (case abort_in_queue (swapped sch) bm2 ids2 of
                  Inl e \<Rightarrow> Inl e
                | Inr (d3, s', bm3, ids3) \<Rightarrow>
                    Inr (d1 @ d2 @ d3,
                         sch\<lparr>waiting := w', running := r', swapped := s', block_manager := bm3\<rparr>))))"

subsection \<open>Swap wrappers of the scheduler\<close>

text \<open>
  \<^verbatim>\<open>Scheduler._swap_out\<close> and \<^verbatim>\<open>Scheduler._swap_in\<close>: the block-manager call followed by
  the status change.  They are written over the block manager and the group; the list
  returned is what the methods append to \<^verbatim>\<open>blocks_to_swap_out\<close> (\<^verbatim>\<open>blocks_to_swap_in\<close>).
\<close>

definition set_status_where :: "SequenceStatus list \<Rightarrow> SequenceStatus \<Rightarrow> SequenceGroup \<Rightarrow> SequenceGroup" where
  "set_status_where olds new g =
     g\<lparr>seqs_dict := map (\<lambda>s. if status s \<in> set olds then s\<lparr>status := new\<rparr> else s) (seqs_dict g)\<rparr>"

definition sched_swap_out ::
  "BlockSpaceManagerV1 \<Rightarrow> SequenceGroup \<Rightarrow> int \<Rightarrow> SequenceStatus
     \<Rightarrow> error + ((nat \<times> nat) list \<times> SequenceGroup \<times> BlockSpaceManagerV1)" where
  "sched_swap_out bm g swap_out_block_nums seq_group_status =
     (case can_swap_out bm g of
        Inl e \<Rightarrow> Inl e
      | Inr False \<Rightarrow> Inl RuntimeError
      | Inr True \<Rightarrow>
          (case swap_out bm g swap_out_block_nums of
             Inl e \<Rightarrow> Inl e
           | Inr (mapping, g', bm') \<Rightarrow>
               Inr (mapping, set_status_where [RUNNING] seq_group_status g', bm')))"

definition sched_swap_in ::
  "BlockSpaceManagerV1 \<Rightarrow> SequenceGroup
     \<Rightarrow> error + ((nat \<times> nat) list \<times> SequenceGroup \<times> BlockSpaceManagerV1)" where
  "sched_swap_in bm g =
     (case swap_in bm g of
        Inl e \<Rightarrow> Inl e
      | Inr (mapping, g', bm') \<Rightarrow>
          Inr (mapping, set_status_where [SWAPPED, PARTIAL_SWAPPED] RUNNING g', bm'))"

subsection \<open>Scheduler outputs and the deadline\<close>












section \<open>Engine\<close>

text \<open>
  The part of \<^verbatim>\<open>LLMEngine\<close> (\<^verbatim>\<open>vllm/engine/llm_engine.py\<close>) that \<^verbatim>\<open>add_request\<close> reads and
  writes.  The tokenizer group and the input processor are external objects; they are
  parameters.  \<open>tokenizer\<close> is \<open>None\<close> when the engine was built with
  \<^verbatim>\<open>skip_tokenizer_init\<close>, and otherwise holds \<^verbatim>\<open>encode(request_id, prompt, lora_request)\<close>
  and \<^verbatim>\<open>get_lora_tokenizer(lora_request).eos_token_id\<close>; \<open>input_processor\<close> receives the token
  ids and the prompt text of \<^verbatim>\<open>LLMInputs\<close>.  Each of them may raise.  The clock read for a
  missing arrival time is \<open>now\<close>.
\<close>

record LLMEngine =
  eng_block_size :: nat
  lora_config :: bool
  max_logprobs :: int
  model_vocab_size :: int
  seq_counter :: nat
  scheduler :: "Scheduler list"

datatype PromptInputs = TextPrompt string | TokensPrompt "int list"

datatype Params = Sampling SamplingParams | Pooling | NoParams

record tokenizer_group =
  encode :: "string \<Rightarrow> string \<Rightarrow> int option \<Rightarrow> error + int list"
  eos_token_id :: "int option \<Rightarrow> error + int option"

type_synonym input_processor = "int list \<Rightarrow> string option \<Rightarrow> error + int list"

text \<open>
  \<^verbatim>\<open>get_tokenizer_group\<close> raises \<^verbatim>\<open>ValueError\<close> when there is no tokenizer; it is only called
  for a prompt given as text.
\<close>

definition get_tokenizer_group :: "tokenizer_group option \<Rightarrow> error + tokenizer_group" where
  "get_tokenizer_group tokenizer =
     (case tokenizer of None \<Rightarrow> Inl ValueError | Some t \<Rightarrow> Inr t)"

definition process_model_inputs ::
  "tokenizer_group option \<Rightarrow> input_processor \<Rightarrow> string \<Rightarrow> PromptInputs \<Rightarrow> int option
     \<Rightarrow> nat option \<Rightarrow> error + int list" where
  "process_model_inputs tokenizer input_processor rid inputs lora prompt_adapter_tokens =
     (case (case inputs of
              TextPrompt p \<Rightarrow>
                (case get_tokenizer_group tokenizer of
                   Inl e \<Rightarrow> Inl e
                 | Inr t \<Rightarrow> encode t rid p lora)
            | TokensPrompt ts \<Rightarrow> Inr ts) of
        Inl e \<Rightarrow> Inl e
      | Inr token_ids \<Rightarrow>
          input_processor
            (case prompt_adapter_tokens of
               Some n \<Rightarrow> replicate n 0 @ token_ids
             | None \<Rightarrow> token_ids)
            (case inputs of TextPrompt p \<Rightarrow> Some p | TokensPrompt ts \<Rightarrow> None))"

definition exceeds :: "int option \<Rightarrow> int \<Rightarrow> bool" where
  "exceeds v bound = (case v of None \<Rightarrow> False | Some x \<Rightarrow> x \<noteq> 0 \<and> x > bound)"

definition create_sequence_group ::
  "LLMEngine \<Rightarrow> string \<Rightarrow> Sequence \<Rightarrow> Params \<Rightarrow> real \<Rightarrow> int option \<Rightarrow> error + SequenceGroup" where
  "create_sequence_group eng rid s params arrival lora =
     (case params of
        Sampling sp \<Rightarrow>
          if exceeds (logprobs sp) (max_logprobs eng) \<or> exceeds (prompt_logprobs sp) (max_logprobs eng)
          then Inl ValueError
          else Inr (new_SequenceGroup rid [s] arrival (Some sp) lora None (model_vocab_size eng))
      | Pooling \<Rightarrow> Inr (new_SequenceGroup rid [s] arrival None lora None (model_vocab_size eng))
      | NoParams \<Rightarrow> Inl ValueError)"

text \<open>\<^verbatim>\<open>costs.index(min(costs))\<close>: the first scheduler with the fewest unfinished groups.\<close>

definition min_cost_index :: "Scheduler list \<Rightarrow> error + nat" where
  "min_cost_index scs =
     (case map get_num_unfinished_seq_groups scs of
        [] \<Rightarrow> Inl ValueError
      | c # cs \<Rightarrow> Inr (length (takeWhile (\<lambda>x. x \<noteq> Min (set (c # cs))) (c # cs))))"

text \<open>\<^verbatim>\<open>_get_eos_token_id\<close>: \<^verbatim>\<open>None\<close> without a tokenizer, else asked of the tokenizer.\<close>

definition get_eos_token_id :: "tokenizer_group option \<Rightarrow> int option \<Rightarrow> error + int option" where
  "get_eos_token_id tokenizer lora =
     (case tokenizer of None \<Rightarrow> Inr None | Some t \<Rightarrow> eos_token_id t lora)"

definition add_processed_request ::
  "tokenizer_group option \<Rightarrow> LLMEngine \<Rightarrow> string \<Rightarrow> int list \<Rightarrow> Params \<Rightarrow> real \<Rightarrow> int option
     \<Rightarrow> error + LLMEngine" where
  "add_processed_request tokenizer eng rid processed_inputs params arrival lora =
     (let sid = seq_counter eng;
          eng1 = eng\<lparr>seq_counter := seq_counter eng + 1\<rparr>
      in (case get_eos_token_id tokenizer lora of
            Inl e \<Rightarrow> Inl e
          | Inr eos \<Rightarrow>
              (let s = new_Sequence sid processed_inputs (eng_block_size eng)
                         (case lora of Some l \<Rightarrow> l | None \<Rightarrow> 0)
               in (case create_sequence_group eng1 rid s params arrival lora of
                     Inl e \<Rightarrow> Inl e
                   | Inr g \<Rightarrow>
                       (case min_cost_index (scheduler eng1) of
                          Inl e \<Rightarrow> Inl e
                        | Inr i \<Rightarrow>
                            Inr (eng1\<lparr>scheduler :=
                                        (scheduler eng1)[i := add_seq_group (scheduler eng1 ! i) g]\<rparr>))))))"

definition add_request ::
  "tokenizer_group option \<Rightarrow> input_processor \<Rightarrow> real \<Rightarrow> LLMEngine \<Rightarrow> string \<Rightarrow> PromptInputs
     \<Rightarrow> Params \<Rightarrow> real option \<Rightarrow> int option \<Rightarrow> nat option \<Rightarrow> error + LLMEngine" where
  "add_request tokenizer input_processor now eng rid inputs params arrival_time_opt lora prompt_adapter_tokens =
     (if lora \<noteq> None \<and> \<not> lora_config eng then Inl ValueError
      else
        let arrival = (case arrival_time_opt of None \<Rightarrow> now | Some t \<Rightarrow> t)
        in (case process_model_inputs tokenizer input_processor rid inputs lora prompt_adapter_tokens of
              Inl e \<Rightarrow> Inl e
            | Inr processed_inputs \<Rightarrow>
                add_processed_request tokenizer eng rid processed_inputs params arrival lora))"

definition engine_abort_request :: "LLMEngine \<Rightarrow> string list \<Rightarrow> error + LLMEngine" where
  "engine_abort_request eng rids =
     (case foldl (\<lambda>acc sch. case acc of
                               Inl e \<Rightarrow> Inl e
                             | Inr done \<Rightarrow>
                                 (case abort_seq_group sch rids of
                                    Inl e \<Rightarrow> Inl e
                                  | Inr (gs, sch') \<Rightarrow> Inr (done @ [sch'])))
             (Inr []) (scheduler eng) of
        Inl e \<Rightarrow> Inl e
      | Inr scs \<Rightarrow> Inr (eng\<lparr>scheduler := scs\<rparr>))"


text \<open>
  \<^verbatim>\<open>LLMEngine.step\<close>: the method reads the deadline flag of its first scheduler and returns
  no outputs when the flag is set, before it calls \<^verbatim>\<open>schedule()\<close>; everything after that test
  is the parameter \<open>step_rest\<close>.
\<close>

definition step ::
  "(LLMEngine \<Rightarrow> error + ('o list \<times> LLMEngine)) \<Rightarrow> LLMEngine \<Rightarrow> error + ('o list \<times> LLMEngine)" where
  "step step_rest eng =
     (case scheduler eng of
        [] \<Rightarrow> Inl IndexError
      | s0 # _ \<Rightarrow> if reach_ddl s0 then Inr ([], eng) else step_rest eng)"

section \<open>Allocating a prompt\<close>

text \<open>
  The loop of \<^verbatim>\<open>_allocate_sequence\<close> over the logical block indices, with the table built
  so far.  Beyond the sliding window an earlier block of the table is reused and its
  reference count is set, not incremented.
\<close>

fun allocate_sequence_loop ::
  "hash_fun \<Rightarrow> BlockSpaceManagerV1 \<Rightarrow> Sequence \<Rightarrow> nat \<Rightarrow> bool \<Rightarrow> bool \<Rightarrow> nat list \<Rightarrow> BlockTable
     \<Rightarrow> error + (BlockTable \<times> BlockSpaceManagerV1)" where
  "allocate_sequence_loop hashf bm s rc shared enc_dec [] block_table = Inr (block_table, bm)"
| "allocate_sequence_loop hashf bm s rc shared enc_dec (logical_idx # rest) block_table =
     (case (if (case block_sliding_window bm of None \<Rightarrow> False | Some w \<Rightarrow> logical_idx \<ge> w) then
              (if the (block_sliding_window bm) = 0 then Inl ZeroDivisionError
               else if logical_idx mod the (block_sliding_window bm) \<ge> length block_table
               then Inl IndexError
               else let b = block_table ! (logical_idx mod the (block_sliding_window bm))
                    in Inr (b, bm\<lparr>heap := set_ref_count (heap bm) b rc\<rparr>))
            else if \<not> enc_dec \<and> enable_caching bm then
              bm_allocate bm GPU (Some (hash_of_block hashf s (int logical_idx)))
                (num_hashed_tokens_of_block s (int logical_idx)) ''normal''
            else
              (case bm_allocate bm GPU None 0 (if shared then ''shared'' else ''normal'') of
                 Inl e \<Rightarrow> Inl e
               | Inr (b, bm') \<Rightarrow> Inr (b, bm'\<lparr>heap := set_ref_count (heap bm') b rc\<rparr>))) of
        Inl e \<Rightarrow> Inl e
      | Inr (b, bm1) \<Rightarrow>
          allocate_sequence_loop hashf bm1 s rc shared enc_dec rest (block_table @ [b]))"

definition allocate_sequence ::
  "hash_fun \<Rightarrow> BlockSpaceManagerV1 \<Rightarrow> Sequence \<Rightarrow> nat \<Rightarrow> bool \<Rightarrow> bool
     \<Rightarrow> error + (BlockTable \<times> BlockSpaceManagerV1)" where
  "allocate_sequence hashf bm s rc shared enc_dec =
     (case n_blocks s of
        Inl e \<Rightarrow> Inl e
      | Inr num_prompt_blocks \<Rightarrow>
          allocate_sequence_loop hashf bm s rc shared enc_dec [0..<num_prompt_blocks] [])"

text \<open>
  \<^verbatim>\<open>BlockSpaceManagerV1.allocate\<close>.  Every waiting sequence receives a copy of the table of
  the first one.  The encoder table is allocated by two identical statements in a row;
  the second overwrites the entry written by the first.
\<close>

definition allocate_encoder ::
  "hash_fun \<Rightarrow> BlockSpaceManagerV1 \<Rightarrow> SequenceGroup \<Rightarrow> error + BlockSpaceManagerV1" where
  "allocate_encoder hashf bm g =
     (case get_encoder_seq g of
        None \<Rightarrow> Inr bm
      | Some enc \<Rightarrow>
          (case allocate_sequence hashf bm enc 1 False True of
             Inl e \<Rightarrow> Inl e
           | Inr (tbl, bm') \<Rightarrow>
               Inr (bm'\<lparr>cross_block_tables := AList.update (request_id g) tbl (cross_block_tables bm')\<rparr>)))"

definition manager_allocate ::
  "(BlockSpaceManagerV1 \<Rightarrow> SequenceGroup \<Rightarrow> error option) \<Rightarrow> hash_fun \<Rightarrow> BlockSpaceManagerV1
     \<Rightarrow> SequenceGroup \<Rightarrow> bool \<Rightarrow> error + BlockSpaceManagerV1" where
  "manager_allocate chk hashf bm g shared =
     (case chk bm g of
        Some e \<Rightarrow> Inl e
      | None \<Rightarrow>
          (case get_seqs g (Some WAITING) of
             [] \<Rightarrow> Inl IndexError
           | s # _ \<Rightarrow>
               (case allocate_sequence hashf bm s (num_seqs g None) shared (is_encoder_decoder g) of
                  Inl e \<Rightarrow> Inl e
                | Inr (tbl, bm1) \<Rightarrow>
                    let bm2 = foldl (\<lambda>b w.
                                if shared
                                then b\<lparr>shared_block_tables := AList.update (seq_id w) tbl (shared_block_tables b)\<rparr>
                                else b\<lparr>block_tables := AList.update (seq_id w) tbl (block_tables b)\<rparr>)
                              bm1 (get_seqs g (Some WAITING))
                    in (case allocate_encoder hashf bm2 g of
                          Inl e \<Rightarrow> Inl e
                        | Inr bm3 \<Rightarrow> allocate_encoder hashf bm3 g))))"

text \<open>\<^verbatim>\<open>Scheduler._allocate_and_set_running\<close>.\<close>

definition allocate_and_set_running ::
  "(BlockSpaceManagerV1 \<Rightarrow> SequenceGroup \<Rightarrow> error option) \<Rightarrow> hash_fun \<Rightarrow> BlockSpaceManagerV1
     \<Rightarrow> SequenceGroup \<Rightarrow> error + (SequenceGroup \<times> BlockSpaceManagerV1)" where
  "allocate_and_set_running chk hashf bm g =
     (case manager_allocate chk hashf bm g False of
        Inl e \<Rightarrow> Inl e
      | Inr bm' \<Rightarrow> Inr (set_status_where [WAITING] RUNNING g, bm'))"

section \<open>Policies\<close>
















subsection \<open>Example scheduler and engine\<close>

definition ex_scheduler :: "bool \<Rightarrow> bool \<Rightarrow> Scheduler" where
  "ex_scheduler chunked ddl =
     \<lparr>chunked_prefill_enabled = chunked, max_num_batched_tokens = 64, cfg_max_num_seqs = 8,
      lora_enabled = False, reach_ddl = ddl, block_manager = ex_small_manager None False,
      waiting = [], running = [], swapped = []\<rparr>"

definition ex_engine :: LLMEngine where
  "ex_engine =
     \<lparr>eng_block_size = 4, lora_config = False, max_logprobs = 20, model_vocab_size = 32000,
      seq_counter = 0, scheduler = [ex_scheduler True False]\<rparr>"

definition ex_sampling :: SamplingParams where
  "ex_sampling = \<lparr>best_of = 1, use_beam_search = False, max_tokens = Some 16,
                   logprobs = None, prompt_logprobs = None\<rparr>"

text \<open>The engine after \<^verbatim>\<open>add_request("a", ...)\<close> has been called twice with the same id.\<close>

definition ex_engine_twice :: LLMEngine where
  "ex_engine_twice =
     (case add_request None (\<lambda>ts p. Inr ts) 0 ex_engine ''a'' (TokensPrompt [7, 7, 7])
             (Sampling ex_sampling) (Some 1) None None of
        Inr e1 \<Rightarrow>
          (case add_request None (\<lambda>ts p. Inr ts) 0 e1 ''a'' (TokensPrompt [8, 8])
                  (Sampling ex_sampling) (Some 2) None None of
             Inr e2 \<Rightarrow> e2))"



text \<open>A scheduler with one waiting group, one running group and one swapped group.\<close>

definition ex_group :: "string \<Rightarrow> nat \<Rightarrow> SequenceStatus \<Rightarrow> SequenceGroup" where
  "ex_group rid sid st =
     new_SequenceGroup rid [(new_Sequence sid [7, 7, 7] 4 0)\<lparr>status := st\<rparr>] 0 (Some ex_sampling)
       None None 32000"



text \<open>
  For stating results about \<^verbatim>\<open>abort_seq_group\<close>: the queued groups, those among them
  that a set of ids names, and the condition that no given id names two queued groups.
\<close>

definition queued :: "Scheduler \<Rightarrow> SequenceGroup list" where
  "queued sch = waiting sch @ running sch @ swapped sch"

definition targets :: "string set \<Rightarrow> SequenceGroup list \<Rightarrow> SequenceGroup list" where
  "targets ids q = filter (\<lambda>g. request_id g \<in> ids) q"

definition unambiguous :: "Scheduler \<Rightarrow> string list \<Rightarrow> bool" where
  "unambiguous sch rids = distinct (map request_id (targets (set rids) (queued sch)))"

text \<open>
  A scheduler whose running group \<open>''r''\<close> consists of the two sequences of
  \<open>ex_shared_state\<close>, which share one GPU block, and whose waiting queue holds \<open>''w''\<close>.
\<close>

definition ex_abort_scheduler :: Scheduler where
  "ex_abort_scheduler =
     (ex_scheduler True False)
       \<lparr>block_manager := ex_shared_state False,
        waiting := [ex_group ''w'' 5 WAITING],
        running := [new_SequenceGroup ''r'' [ex_seq 0 3, ex_seq 1 3] 0 (Some ex_sampling)
                      None None 32000]\<rparr>"

subsection \<open>Example: admitted prompts\<close>

text \<open>
  A manager with block size 4, four GPU blocks and four CPU blocks, and a group with one
  prompt of \<open>n\<close> tokens admitted by \<^verbatim>\<open>_allocate_and_set_running\<close>.
\<close>

definition ex_swap_manager :: "nat option \<Rightarrow> BlockSpaceManagerV1" where
  "ex_swap_manager sliding_window =
     (case new_BlockSpaceManagerV1 4 4 4 0 0 sliding_window False of Inr bm \<Rightarrow> bm)"

definition ex_admitted :: "nat option \<Rightarrow> nat \<Rightarrow> SequenceGroup \<times> BlockSpaceManagerV1" where
  "ex_admitted sliding_window n =
     (case allocate_and_set_running (\<lambda>_ _. None) ex_hash (ex_swap_manager sliding_window)
             (new_SequenceGroup ''r1'' [new_Sequence 0 (replicate n 7) 4 0] 0 (Some ex_sampling)
                None None 32000) of
        Inr r \<Rightarrow> r)"

subsection \<open>Example: a group with a running and a finished sequence\<close>


section \<open>Properties of the budget\<close>

text \<open>
  C5. For every budget state and every request id, a second call of
  \<^verbatim>\<open>add_num_batched_tokens\<close> (respectively \<^verbatim>\<open>add_num_seqs\<close>) with the same request id
  is a no-op, whatever amount the second call carries: the whole budget, and so both
  totals \<open>num_batched_tokens\<close> and \<open>num_curr_seqs\<close>, equal those after the first call.
\<close>

theorem budget_add_twice_noop:
  "add_num_batched_tokens (add_num_batched_tokens b r n) r m = add_num_batched_tokens b r n
   \<and> add_num_seqs (add_num_seqs b r n) r m = add_num_seqs b r n
   \<and> num_batched_tokens (add_num_batched_tokens (add_num_batched_tokens b r n) r m)
       = num_batched_tokens (add_num_batched_tokens b r n)
   \<and> num_curr_seqs (add_num_batched_tokens (add_num_batched_tokens b r n) r m)
       = num_curr_seqs (add_num_batched_tokens b r n)
   \<and> num_batched_tokens (add_num_seqs (add_num_seqs b r n) r m)
       = num_batched_tokens (add_num_seqs b r n)
   \<and> num_curr_seqs (add_num_seqs (add_num_seqs b r n) r m)
       = num_curr_seqs (add_num_seqs b r n)"
  by (simp add: add_num_batched_tokens_def add_num_seqs_def)

section \<open>Properties of the allocators\<close>

text \<open>
  C10. For every block whose \<open>ref_count\<close> is already 0, \<^verbatim>\<open>free\<close> raises the double-free
  error instead of succeeding, in the uncached allocator (whatever the block type), in the
  cached allocator, and through the common interface; the failed call leaves the
  allocator (free lists, cache, evictor) and every block object unchanged.
\<close>

theorem free_double_free_raises:
  assumes "ref_count (h ! b) = 0"
  shows "uncached_free ua h b block_type = (Some DoubleFree, ua, h)
       \<and> cached_free ca h b = (Some DoubleFree, ca, h)
       \<and> free al h b block_type = (Some DoubleFree, al, h)"
  using assms by (cases al) (simp_all add: uncached_free_def cached_free_def free_def)

theorem free_double_free_raises_witness:
  "ref_count (snd (new_UncachedBlockAllocator GPU 16 2 1 []) ! 0) = 0
   \<and> uncached_free (fst (new_UncachedBlockAllocator GPU 16 2 1 []))
        (snd (new_UncachedBlockAllocator GPU 16 2 1 [])) 0 ''normal''
      = (Some DoubleFree, fst (new_UncachedBlockAllocator GPU 16 2 1 []),
         snd (new_UncachedBlockAllocator GPU 16 2 1 []))
   \<and> cached_free (new_CachedBlockAllocator GPU 16 2)
        (snd (new_UncachedBlockAllocator GPU 16 2 1 [])) 0
      = (Some DoubleFree, new_CachedBlockAllocator GPU 16 2,
         snd (new_UncachedBlockAllocator GPU 16 2 1 []))
   \<and> free (Cached (new_CachedBlockAllocator GPU 16 2))
        (snd (new_UncachedBlockAllocator GPU 16 2 1 [])) 0 ''normal''
      = (Some DoubleFree, Cached (new_CachedBlockAllocator GPU 16 2),
         snd (new_UncachedBlockAllocator GPU 16 2 1 []))"
proof -
  have rc: "ref_count (snd (new_UncachedBlockAllocator GPU 16 2 1 []) ! 0) = 0"
    by (simp add: new_UncachedBlockAllocator_def new_PhysicalTokenBlock_def Let_def upt_rec)
  from free_double_free_raises [OF rc] rc show ?thesis by blast
qed

section \<open>Properties of admission\<close>

lemmas seq_simps = get_seqs_def new_SequenceGroup_def new_Sequence_def get_seq_num_required_blocks_def
  n_blocks_def get_len_def data_get_len_def new_SequenceData_def get_encoder_seq_def

lemmas ex_manager_simps = ex_manager_def new_BlockSpaceManagerV1_def new_UncachedBlockAllocator_def
  new_PhysicalTokenBlock_def Let_def

lemma get_num_free_blocks_normal:
  "\<exists>n. get_num_free_blocks al ''normal'' = Inr n"
  by (cases al) (simp_all add: get_num_free_blocks_def uncached_get_num_free_blocks_def)

lemma num_required_blocks_ok:
  assumes "get_seqs g (Some WAITING) \<noteq> []"
      and "\<forall>s \<in> set (seqs_dict g). seq_block_size s > 0"
      and "\<forall>e. encoder_seq g = Some e \<longrightarrow> seq_block_size e > 0"
  shows "\<exists>need. num_required_blocks bm g = Inr need \<and> need \<ge> 0"
proof -
  from assms(1) obtain s rest where sr: "get_seqs g (Some WAITING) = s # rest"
    by (cases "get_seqs g (Some WAITING)") auto
  then have "s \<in> set (seqs_dict g)"
    by (metis filter_is_subset get_seqs_def list.set_intros(1) option.simps(5) subsetD)
  with assms(2) have sb: "seq_block_size s > 0" by blast
  show ?thesis
    using sr sb assms(3)
    by (cases "encoder_seq g"; cases "block_sliding_window bm")
       (auto simp: num_required_blocks_def get_seq_num_required_blocks_def n_blocks_def
          get_encoder_seq_def)
qed

text \<open>
  C1 (as amended).  For every sequence group with a waiting sequence, when the
  encoder-decoder check passes and \<open>shared\<close> is false, \<^verbatim>\<open>can_allocate\<close> returns
  \<open>NEVER\<close> exactly when the required block count exceeds
  \<open>gpu_block_capacity = num_total_gpu_blocks - watermark_blocks - num_shared_blocks\<close>;
  it returns \<open>OK\<close> exactly when the count is within that capacity and the free-block
  count minus the required count is at least the watermark (equality included); and
  \<open>LATER\<close> exactly in the remaining case.
\<close>

theorem can_allocate_status:
  assumes "chk bm g = None"
      and "get_seqs g (Some WAITING) \<noteq> []"
      and "\<forall>s \<in> set (seqs_dict g). seq_block_size s > 0"
      and "\<forall>e. encoder_seq g = Some e \<longrightarrow> seq_block_size e > 0"
  shows "\<exists>need num_free st.
           num_required_blocks bm g = Inr need
         \<and> get_num_free_blocks (gpu_allocator bm) ''normal'' = Inr num_free
         \<and> can_allocate chk bm g False = Inr st
         \<and> (st = NEVER \<longleftrightarrow> gpu_block_capacity bm < need)
         \<and> (st = OK \<longleftrightarrow> need \<le> gpu_block_capacity bm \<and> num_free - need \<ge> watermark_blocks bm)
         \<and> (st = LATER \<longleftrightarrow> need \<le> gpu_block_capacity bm \<and> num_free - need < watermark_blocks bm)
         \<and> (need \<le> gpu_block_capacity bm \<and> num_free - need = watermark_blocks bm \<longrightarrow> st = OK)"
proof -
  from num_required_blocks_ok [OF assms(2,3,4)] obtain need
    where need: "num_required_blocks bm g = Inr need" by blast
  from get_num_free_blocks_normal obtain nf
    where nf: "get_num_free_blocks (gpu_allocator bm) ''normal'' = Inr nf" by blast
  show ?thesis
    using assms(1) need nf by (auto simp: can_allocate_def)
qed

theorem can_allocate_status_witness:
  "(\<lambda>_ _. None) ex_manager (ex_prompt_group 64) = (None :: error option)
   \<and> get_seqs (ex_prompt_group 64) (Some WAITING) \<noteq> []
   \<and> num_required_blocks ex_manager (ex_prompt_group 64) = Inr 4
   \<and> get_num_free_blocks (gpu_allocator ex_manager) ''normal'' = Inr 10
   \<and> gpu_block_capacity ex_manager = 6 \<and> watermark_blocks ex_manager = 0
   \<and> can_allocate (\<lambda>_ _. None) ex_manager (ex_prompt_group 64) False = Inr OK"
proof -
  have a: "get_seqs (ex_prompt_group 64) (Some WAITING) \<noteq> []"
    by (simp add: ex_prompt_group_def seq_simps)
  have b: "\<forall>s \<in> set (seqs_dict (ex_prompt_group 64)). seq_block_size s > 0"
    by (simp add: ex_prompt_group_def seq_simps)
  have c: "\<forall>e. encoder_seq (ex_prompt_group 64) = Some e \<longrightarrow> seq_block_size e > 0"
    by (simp add: ex_prompt_group_def seq_simps)
  have n: "num_required_blocks ex_manager (ex_prompt_group 64) = Inr 4"
    by (simp add: num_required_blocks_def ex_prompt_group_def seq_simps ex_manager_simps)
  have f: "get_num_free_blocks (gpu_allocator ex_manager) ''normal'' = Inr 10"
    by (simp add: get_num_free_blocks_def uncached_get_num_free_blocks_def ex_manager_simps)
  have k: "gpu_block_capacity ex_manager = 6 \<and> watermark_blocks ex_manager = 0"
    by (simp add: ex_manager_simps)
  from can_allocate_status [of "\<lambda>_ _. None" ex_manager "ex_prompt_group 64", OF _ a b c]
  show ?thesis using a n f k by auto
qed

text \<open>
  C1 as stated fails: a manager built with 10 GPU blocks, 4 shared blocks and no
  watermark has all 10 normal blocks free; a prompt of 8 blocks would leave
  \<open>10 - 8 \<ge> watermark\<close> and fits the device, yet the answer is \<open>NEVER\<close>, because the
  capacity subtracts the shared blocks.
\<close>

theorem can_allocate_reserve_counterexample:
  "can_allocate (\<lambda>_ _. None) ex_manager (ex_prompt_group 128) False = Inr NEVER
   \<and> num_required_blocks ex_manager (ex_prompt_group 128) = Inr 8
   \<and> get_num_free_blocks (gpu_allocator ex_manager) ''normal'' = Inr 10
   \<and> num_total_gpu_blocks ex_manager = 10
   \<and> watermark_blocks ex_manager = 0
   \<and> (10::int) - 8 \<ge> watermark_blocks ex_manager"
  by (simp add: can_allocate_def num_required_blocks_def ex_prompt_group_def seq_simps
        get_num_free_blocks_def uncached_get_num_free_blocks_def ex_manager_simps)

section \<open>Properties of append_slots\<close>

lemma seq_table_set_seq_table [simp]:
  "seq_table (set_seq_table bm s t) s = Some t"
  by (simp add: seq_table_def set_seq_table_def update_Some_unfold map_of_eq_None_iff)

lemma set_seq_table_frame [simp]:
  "heap (set_seq_table bm s t) = heap bm"
  "gpu_allocator (set_seq_table bm s t) = gpu_allocator bm"
  "cpu_allocator (set_seq_table bm s t) = cpu_allocator bm"
  "enable_caching (set_seq_table bm s t) = enable_caching bm"
  "block_sliding_window (set_seq_table bm s t) = block_sliding_window bm"
  by (simp_all add: set_seq_table_def)

lemma length_set_ref_count [simp]: "length (set_ref_count h r n) = length h"
  by (simp add: set_ref_count_def)

lemma nth_set_ref_count_other [simp]: "r \<noteq> r' \<Longrightarrow> set_ref_count h r n ! r' = h ! r'"
  by (simp add: set_ref_count_def)

lemma nth_set_ref_count_same:
  "r < length h \<Longrightarrow> set_ref_count h r n ! r = (h ! r)\<lparr>ref_count := n\<rparr>"
  by (simp add: set_ref_count_def)

lemma nth_set_ref_count:
  "set_ref_count h r n ! r' = (if r = r' \<and> r < length h then (h ! r)\<lparr>ref_count := n\<rparr> else h ! r')"
proof (cases "r < length h")
  case True
  then show ?thesis by (simp add: set_ref_count_def nth_list_update)
next
  case False
  then have "length h \<le> r" by simp
  then have "set_ref_count h r n = h" unfolding set_ref_count_def by (rule list_update_beyond)
  with False show ?thesis by simp
qed

lemma set_ref_count_keeps [simp]:
  "block_number (set_ref_count h r n ! r') = block_number (h ! r')"
  "device (set_ref_count h r n ! r') = device (h ! r')"
  "block_hash (set_ref_count h r n ! r') = block_hash (h ! r')"
  "num_hashed_tokens (set_ref_count h r n ! r') = num_hashed_tokens (h ! r')"
  by (simp_all add: nth_set_ref_count)

lemma allocate_last_uncached:
  assumes "\<not> enable_caching bm" and "gpu_allocator bm = Uncached ua"
      and "free_list_of ua s \<noteq> []"
  shows "allocate_last_physical_block hashf bm s =
           Inr (last (free_list_of ua s),
                bm\<lparr>gpu_allocator := Uncached (pop_free_list_of ua s),
                   heap := set_ref_count (heap bm) (last (free_list_of ua s)) 1\<rparr>)"
  using assms
  by (cases "seq_type s")
     (simp_all add: allocate_last_physical_block_def bm_allocate_def get_allocator_def
        allocate_def uncached_allocate_def set_allocator_def Let_def free_list_of_def
        pop_free_list_of_def)

lemma append_slots_new_block:
  assumes nc: "\<not> enable_caching bm" and ua: "gpu_allocator bm = Uncached ua"
      and nb: "n_blocks s = Inr nb" and tbl: "seq_table bm s = Some tbl"
      and fl: "free_list_of ua s \<noteq> []"
      and len: "Suc (length tbl) = nb" and nw: "\<not> window_reuses bm tbl"
  shows "append_slots hashf bm s =
           Inr ([], set_seq_table
                      (bm\<lparr>gpu_allocator := Uncached (pop_free_list_of ua s),
                          heap := set_ref_count (heap bm) (last (free_list_of ua s)) 1\<rparr>)
                      s (tbl @ [last (free_list_of ua s)]))"
proof -
  have lt: "length tbl < nb" "length tbl = nb - 1" using len by auto
  show ?thesis
    using nb tbl lt nw allocate_last_uncached [OF nc ua fl, of hashf]
    by (auto simp: append_slots_def window_reuses_def split: option.splits)
qed

lemma append_slots_cow:
  assumes nc: "\<not> enable_caching bm" and ua: "gpu_allocator bm = Uncached ua"
      and nb: "n_blocks s = Inr nb" and tbl: "seq_table bm s = Some tbl"
      and fl: "free_list_of ua s \<noteq> []"
      and new: "new = last (free_list_of ua s)"
      and fresh: "ref_count (heap bm ! new) = 0"
      and len: "length tbl = nb" and ne: "tbl \<noteq> []"
      and dev: "device (heap bm ! last tbl) = GPU"
      and rc: "ref_count (heap bm ! last tbl) > 1"
      and valid: "last tbl < length (heap bm)"
  shows "append_slots hashf bm s =
           Inr ([(block_number (heap bm ! last tbl), block_number (heap bm ! new))],
                set_seq_table
                  (bm\<lparr>gpu_allocator := Uncached (pop_free_list_of ua s),
                      heap := set_ref_count (set_ref_count (heap bm) new 1) (last tbl)
                                (ref_count (heap bm ! last tbl) - 1)\<rparr>)
                  s (butlast tbl @ [new]))"
proof -
  have neq: "new \<noteq> last tbl" using fresh rc by auto
  let ?bm1 = "bm\<lparr>gpu_allocator := Uncached (pop_free_list_of ua s),
                  heap := set_ref_count (heap bm) new 1\<rparr>"
  let ?bm2 = "set_seq_table ?bm1 s (butlast tbl @ [new])"
  have h2: "heap ?bm2 = set_ref_count (heap bm) new 1"
    by simp
  have g2: "gpu_allocator ?bm2 = Uncached (pop_free_list_of ua s)"
    by simp
  have old_same: "heap ?bm2 ! last tbl = heap bm ! last tbl"
    using neq by simp
  have fr: "bm_free ?bm2 GPU (last tbl) (if seq_type s = TEMP then ''shared'' else ''normal'') =
              Inr (?bm2\<lparr>heap := set_ref_count (heap ?bm2) (last tbl) (ref_count (heap bm ! last tbl) - 1)\<rparr>)"
    using rc valid neq
    by (simp add: bm_free_def get_allocator_def free_def uncached_free_def
          set_allocator_def Let_def nth_set_ref_count_same)
  have "append_slots hashf bm s = append_to_last_block hashf bm s tbl"
    using nb tbl len by (simp add: append_slots_def)
  also have "\<dots> = Inr ([(block_number (heap bm ! last tbl), block_number (heap bm ! new))],
                ?bm2\<lparr>heap := set_ref_count (heap ?bm2) (last tbl) (ref_count (heap bm ! last tbl) - 1)\<rparr>)"
    using ne dev rc nc allocate_last_uncached [OF nc ua fl, of hashf] fr new h2
    by (simp add: append_to_last_block_def Let_def)
  also have "?bm2\<lparr>heap := set_ref_count (heap ?bm2) (last tbl) (ref_count (heap bm ! last tbl) - 1)\<rparr>
           = set_seq_table
                  (bm\<lparr>gpu_allocator := Uncached (pop_free_list_of ua s),
                      heap := set_ref_count (set_ref_count (heap bm) new 1) (last tbl)
                                (ref_count (heap bm ! last tbl) - 1)\<rparr>)
                  s (butlast tbl @ [new])"
    by (simp add: set_seq_table_def)
  finally show ?thesis .
qed


text \<open>
  C3 (as amended).  With prefix caching disabled and a free block \<open>new\<close> on top of the free
  list of the sequence's type:
  \<^item> if the block table already has \<open>n_blocks\<close> entries and its last block is a GPU block
    with \<open>ref_count > 1\<close>, \<^verbatim>\<open>append_slots\<close> takes \<open>new\<close> from the free list with
    \<open>ref_count = 1\<close>, replaces the last table entry with it, decrements the old block's
    reference count, and returns exactly the pair \<open>(old_block_number, new_block_number)\<close>;
  \<^item> if the table has \<open>n_blocks - 1\<close> entries and the sliding window does not make it reuse
    a block, \<^verbatim>\<open>append_slots\<close> takes \<open>new\<close> from the free list with \<open>ref_count = 1\<close>, appends
    it to the table and returns the empty list.
\<close>

theorem append_slots_uncached:
  assumes "\<not> enable_caching bm" and "gpu_allocator bm = Uncached ua"
      and "n_blocks s = Inr nb" and "seq_table bm s = Some tbl"
      and "free_list_of ua s \<noteq> []"
      and "new = last (free_list_of ua s)"
      and "ref_count (heap bm ! new) = 0"
  shows "(length tbl = nb \<and> tbl \<noteq> [] \<and> device (heap bm ! last tbl) = GPU
            \<and> 1 < ref_count (heap bm ! last tbl) \<and> last tbl < length (heap bm)
          \<longrightarrow> append_slots hashf bm s =
                Inr ([(block_number (heap bm ! last tbl), block_number (heap bm ! new))],
                     set_seq_table
                       (bm\<lparr>gpu_allocator := Uncached (pop_free_list_of ua s),
                           heap := set_ref_count (set_ref_count (heap bm) new 1) (last tbl)
                                     (ref_count (heap bm ! last tbl) - 1)\<rparr>)
                       s (butlast tbl @ [new])))
       \<and> (Suc (length tbl) = nb \<and> \<not> window_reuses bm tbl
          \<longrightarrow> append_slots hashf bm s =
                Inr ([], set_seq_table
                           (bm\<lparr>gpu_allocator := Uncached (pop_free_list_of ua s),
                               heap := set_ref_count (heap bm) new 1\<rparr>)
                           s (tbl @ [new])))"
  using append_slots_cow [OF assms(1-7), of hashf] append_slots_new_block [OF assms(1-5), of hashf]
        assms(6)
  by simp

theorem append_slots_uncached_witness:
  "append_slots ex_hash (ex_shared_state False) (ex_seq 0 3) =
     Inr ([(3, 2)],
          set_seq_table
            ((ex_shared_state False)
               \<lparr>gpu_allocator := Uncached \<lparr>u_device = GPU, u_block_size = 4, u_num_blocks = 4,
                                   u_num_shared_blocks = 0, free_shared_blocks = [],
                                   free_blocks = [0, 1], total_blocks = [0, 1, 2, 3]\<rparr>,
                heap := set_ref_count (set_ref_count (heap (ex_shared_state False)) 2 1) 3 1\<rparr>)
            (ex_seq 0 3) [2])
   \<and> append_slots ex_hash (ex_shared_state False) (ex_seq 0 5) =
     Inr ([],
          set_seq_table
            ((ex_shared_state False)
               \<lparr>gpu_allocator := Uncached \<lparr>u_device = GPU, u_block_size = 4, u_num_blocks = 4,
                                   u_num_shared_blocks = 0, free_shared_blocks = [],
                                   free_blocks = [0, 1], total_blocks = [0, 1, 2, 3]\<rparr>,
                heap := set_ref_count (heap (ex_shared_state False)) 2 1\<rparr>)
            (ex_seq 0 5) [3, 2])"
proof -
  let ?bm = "ex_shared_state False"
  let ?ua = "\<lparr>u_device = GPU, u_block_size = 4, u_num_blocks = 4, u_num_shared_blocks = 0,
              free_shared_blocks = [], free_blocks = [0, 1, 2], total_blocks = [0, 1, 2, 3]\<rparr>"
  have nc: "\<not> enable_caching ?bm" by code_simp
  have ua: "gpu_allocator ?bm = Uncached ?ua" by code_simp
  have nb3: "n_blocks (ex_seq 0 3) = Inr 1" by code_simp
  have nb5: "n_blocks (ex_seq 0 5) = Inr 2" by code_simp
  have t3: "seq_table ?bm (ex_seq 0 3) = Some [3]" by code_simp
  have t5: "seq_table ?bm (ex_seq 0 5) = Some [3]" by code_simp
  have fl3: "free_list_of ?ua (ex_seq 0 3) \<noteq> []" by code_simp
  have fl5: "free_list_of ?ua (ex_seq 0 5) \<noteq> []" by code_simp
  have n3: "2 = last (free_list_of ?ua (ex_seq 0 3))" by code_simp
  have n5: "2 = last (free_list_of ?ua (ex_seq 0 5))" by code_simp
  have fresh: "ref_count (heap ?bm ! 2) = 0" by code_simp
  have cow: "length [3::nat] = 1 \<and> [3::nat] \<noteq> [] \<and> device (heap ?bm ! last [3]) = GPU
               \<and> 1 < ref_count (heap ?bm ! last [3]) \<and> last [3] < length (heap ?bm)"
    by code_simp
  have nw: "Suc (length [3::nat]) = 2 \<and> \<not> window_reuses ?bm [3]" by code_simp
  have pop3: "pop_free_list_of ?ua (ex_seq 0 3) = ?ua\<lparr>free_blocks := [0, 1]\<rparr>" by code_simp
  have pop5: "pop_free_list_of ?ua (ex_seq 0 5) = ?ua\<lparr>free_blocks := [0, 1]\<rparr>" by code_simp
  have v: "block_number (heap ?bm ! 3) = 3" "block_number (heap ?bm ! 2) = 2"
          "ref_count (heap ?bm ! 3) = 2"
    by code_simp+
  from append_slots_uncached [OF nc ua nb3 t3 fl3 n3 fresh, of ex_hash] cow pop3 v
  have A: "append_slots ex_hash ?bm (ex_seq 0 3) =
     Inr ([(3, 2)],
          set_seq_table
            (?bm\<lparr>gpu_allocator := Uncached (?ua\<lparr>free_blocks := [0, 1]\<rparr>),
                heap := set_ref_count (set_ref_count (heap ?bm) 2 1) 3 1\<rparr>)
            (ex_seq 0 3) [2])"
    by simp
  from append_slots_uncached [OF nc ua nb5 t5 fl5 n5 fresh, of ex_hash] nw pop5
  have B: "append_slots ex_hash ?bm (ex_seq 0 5) =
     Inr ([],
          set_seq_table
            (?bm\<lparr>gpu_allocator := Uncached (?ua\<lparr>free_blocks := [0, 1]\<rparr>),
                heap := set_ref_count (heap ?bm) 2 1\<rparr>)
            (ex_seq 0 5) [3, 2])"
    by simp
  from A B show ?thesis by simp
qed

text \<open>
  C3 as stated fails in three ways.  With a sliding window of two blocks, a sequence
  that needs a third logical block gets no new physical block: the table's first block
  is appended again, and allocator and block objects stay as they were.  With prefix
  caching, a shared full last block is "copied" onto the cached block of the same hash,
  here the old block itself, so the pair returned is \<open>(0, 0)\<close> and nothing changes; and
  a new logical block whose content hash is cached is served by that in-use block, whose
  reference count becomes 2, with no block taken from the free pool.
\<close>

theorem append_slots_counterexample:
  "n_blocks (ex_seq 0 9) = Inr 3
   \<and> seq_table ex_window_state (ex_seq 0 9) = Some [3, 2]
   \<and> (case append_slots ex_hash ex_window_state (ex_seq 0 9) of
        Inl e \<Rightarrow> False
      | Inr (cows, bm) \<Rightarrow>
          cows = [] \<and> seq_table bm (ex_seq 0 9) = Some [3, 2, 3]
          \<and> gpu_allocator bm = gpu_allocator ex_window_state
          \<and> heap bm = heap ex_window_state)
   \<and> n_blocks (ex_seq 0 4) = Inr 1
   \<and> seq_table (ex_shared_state True) (ex_seq 0 4) = Some [0]
   \<and> ref_count (heap (ex_shared_state True) ! 0) = 2
   \<and> (case append_slots (\<lambda>_. 5) (ex_shared_state True) (ex_seq 0 4) of
        Inl e \<Rightarrow> False
      | Inr (cows, bm) \<Rightarrow>
          cows = [(0, 0)] \<and> seq_table bm (ex_seq 0 4) = Some [0]
          \<and> ref_count (heap bm ! 0) = 2
          \<and> get_num_free_blocks (gpu_allocator bm) ''normal''
              = get_num_free_blocks (gpu_allocator (ex_shared_state True)) ''normal'')
   \<and> n_blocks (ex_seq1 0 2) = Inr 2
   \<and> seq_table ex_cached_state (ex_seq1 0 2) = Some [0]
   \<and> seq_table ex_cached_state (ex_seq1 1 2) = Some [0, 1]
   \<and> (case append_slots ex_hash ex_cached_state (ex_seq1 0 2) of
        Inl e \<Rightarrow> False
      | Inr (cows, bm) \<Rightarrow>
          cows = [] \<and> seq_table bm (ex_seq1 0 2) = Some [0, 1]
          \<and> ref_count (heap bm ! 1) = 2
          \<and> get_num_free_blocks (gpu_allocator bm) ''normal''
              = get_num_free_blocks (gpu_allocator ex_cached_state) ''normal'')"
  by code_simp

section \<open>Properties of the policies\<close>








section \<open>Properties of the deadline\<close>



text \<open>
  \<^verbatim>\<open>LLMEngine.step\<close> itself never reaches the scheduler once the flag of its first scheduler
  is set: it returns no outputs and leaves the engine, queues included, as it is.
\<close>

lemma step_deadline_skips_schedule:
  assumes "scheduler eng = s0 # rest" and "reach_ddl s0"
  shows "step step_rest eng = Inr ([], eng)"
  using assms by (simp add: step_def)




section \<open>Properties of add_request\<close>





text \<open>
  The failures of \<^verbatim>\<open>add_request\<close> that come from the prompt: a prompt given as text needs
  the tokenizer, and an exception of the tokenizer or of the input processor is the
  exception of the call.
\<close>

lemma text_prompt_needs_tokenizer:
  "process_model_inputs None input_processor rid (TextPrompt p) lora adapter = Inl ValueError"
  by (simp add: process_model_inputs_def get_tokenizer_group_def)

lemma add_request_input_failure:
  assumes "lora = None \<or> lora_config eng"
      and "process_model_inputs tokenizer input_processor rid inputs lora adapter = Inl e"
  shows "add_request tokenizer input_processor now eng rid inputs params arrival lora adapter = Inl e"
  using assms by (auto simp: add_request_def Let_def)

lemma add_request_eos_failure:
  assumes "lora = None \<or> lora_config eng"
      and "process_model_inputs tokenizer input_processor rid inputs lora adapter = Inr toks"
      and "get_eos_token_id tokenizer lora = Inl e"
  shows "add_request tokenizer input_processor now eng rid inputs params arrival lora adapter = Inl e"
  using assms by (auto simp: add_request_def add_processed_request_def Let_def)




section \<open>Properties of abort_seq_group\<close>

lemma collect_aborted_none:
  "targets ids q = [] \<Longrightarrow> collect_aborted q ids = ([], ids)"
  by (induction q) (auto simp: targets_def split: if_splits)

lemma targets_shrink:
  assumes "x \<notin> request_id ` set (targets ids q)"
  shows "targets (ids - {x}) q = targets ids q"
  using assms unfolding targets_def
  by (intro filter_cong) auto

lemma collect_aborted_targets:
  "distinct (map request_id (targets ids q))
     \<Longrightarrow> collect_aborted q ids = (targets ids q, ids - request_id ` set q)"
proof (induction q arbitrary: ids)
  case Nil
  then show ?case by (simp add: targets_def)
next
  case (Cons g gs)
  show ?case
  proof (cases "request_id g \<in> ids")
    case True
    then have t: "targets ids (g # gs) = g # targets ids gs" by (simp add: targets_def)
    with Cons.prems have nin: "request_id g \<notin> request_id ` set (targets ids gs)"
      and d: "distinct (map request_id (targets ids gs))" by auto
    from targets_shrink [OF nin] have sh: "targets (ids - {request_id g}) gs = targets ids gs" .
    with d have "distinct (map request_id (targets (ids - {request_id g}) gs))" by simp
    from Cons.IH [OF this] sh
    have "collect_aborted gs (ids - {request_id g})
            = (targets ids gs, ids - {request_id g} - request_id ` set gs)" by simp
    moreover have "ids \<noteq> {}" using True by auto
    ultimately show ?thesis using True t by auto
  next
    case False
    then have t: "targets ids (g # gs) = targets ids gs" by (simp add: targets_def)
    with Cons.prems have "distinct (map request_id (targets ids gs))" by simp
    from Cons.IH [OF this] have ih: "collect_aborted gs ids = (targets ids gs, ids - request_id ` set gs)" .
    show ?thesis
    proof (cases "ids = {}")
      case True
      then show ?thesis by (simp add: targets_def)
    next
      case ne: False
      with False ih t show ?thesis by auto
    qed
  qed
qed

lemma abort_groups_queue:
  "abort_groups q bm a = Inr (done, q', bm') \<Longrightarrow> mset q' = mset q - mset a"
proof (induction a arbitrary: q bm "done" q' bm')
  case Nil
  then show ?case by simp
next
  case (Cons g gs)
  from Cons.prems obtain bm1 d1 where
    r: "abort_groups (remove1 g q) bm1 gs = Inr (d1, q', bm')"
    by (auto split: sum.splits prod.splits)
  from Cons.IH [OF r] have "mset q' = mset (remove1 g q) - mset gs" .
  then show ?case by (simp add: diff_diff_add)
qed

lemma abort_groups_nil [simp]: "abort_groups q bm [] = Inr ([], q, bm)"
  by simp

lemma abort_in_queue_result:
  assumes d: "distinct (map request_id (targets ids q))"
      and r: "abort_in_queue q bm ids = Inr (done, q', bm', ids')"
  shows "targets ids q' = []" and "set q' \<subseteq> set q" and "ids' = ids - request_id ` set q"
proof -
  from r collect_aborted_targets [OF d] obtain
    ag: "abort_groups q bm (targets ids q) = Inr (done, q', bm')" and i: "ids' = ids - request_id ` set q"
    by (auto simp: abort_in_queue_def split: sum.splits prod.splits)
  from abort_groups_queue [OF ag] have m: "mset q' = mset q - mset (targets ids q)" .
  show "ids' = ids - request_id ` set q" by (rule i)
  show sub: "set q' \<subseteq> set q"
    by (metis m in_diffD subsetI set_mset_mset)
  have "count (mset q') h = 0" if "request_id h \<in> ids" for h
    using that unfolding m targets_def by simp
  then have "h \<notin> set q'" if "request_id h \<in> ids" for h
    using that by (metis count_mset_0_iff set_mset_mset)
  then show "targets ids q' = []"
    by (auto simp: targets_def filter_empty_conv)
qed

lemma abort_in_queue_none:
  "targets ids q = [] \<Longrightarrow> abort_in_queue q bm ids = Inr ([], q, bm, ids)"
  by (simp add: abort_in_queue_def collect_aborted_none)

lemma targets_append [simp]: "targets ids (xs @ ys) = targets ids xs @ targets ids ys"
  by (simp add: targets_def)

lemma targets_subset_ids:
  assumes "ids' \<subseteq> ids" and "distinct (map request_id (targets ids q))"
  shows "distinct (map request_id (targets ids' q))"
proof -
  have "targets ids' q = filter (\<lambda>g. request_id g \<in> ids') (targets ids q)"
    using assms(1) unfolding targets_def by (auto intro: filter_cong)
  then show ?thesis using assms(2) by (simp add: distinct_map_filter)
qed

lemma targets_empty_subset:
  "targets ids q = [] \<Longrightarrow> set q' \<subseteq> set q \<Longrightarrow> targets ids q' = []"
  by (auto simp: targets_def filter_empty_conv)


lemma targets_imageI:
  "x \<in> set q \<Longrightarrow> request_id x = i \<Longrightarrow> i \<in> ids \<Longrightarrow> i \<in> request_id ` set (targets ids q)"
  by (auto simp: targets_def)

lemma abort_seq_group_none:
  assumes "targets (set rids) (queued sch) = []"
  shows "abort_seq_group sch rids = Inr ([], sch)"
proof -
  from assms have "targets (set rids) (waiting sch) = []" "targets (set rids) (running sch) = []"
    "targets (set rids) (swapped sch) = []"
    by (simp_all add: queued_def)
  then show ?thesis
    by (simp add: abort_seq_group_def abort_in_queue_none)
qed

lemma abort_seq_group_clears:
  assumes u: "unambiguous sch rids"
      and r: "abort_seq_group sch rids = Inr (done, sch')"
  shows "targets (set rids) (queued sch') = []"
proof -
  let ?I = "set rids"
  let ?W = "waiting sch" and ?R = "running sch" and ?S = "swapped sch"
  from r obtain d1 w' bm1 ids1 d2 r' bm2 ids2 d3 s' bm3 ids3 where
    a1: "abort_in_queue ?W (block_manager sch) ?I = Inr (d1, w', bm1, ids1)" and
    a2: "abort_in_queue ?R bm1 ids1 = Inr (d2, r', bm2, ids2)" and
    a3: "abort_in_queue ?S bm2 ids2 = Inr (d3, s', bm3, ids3)" and
    s': "sch' = sch\<lparr>waiting := w', running := r', swapped := s', block_manager := bm3\<rparr>"
    by (auto simp: abort_seq_group_def split: sum.splits prod.splits)
  from u have dist: "distinct (map request_id (targets ?I ?W) @ map request_id (targets ?I ?R)
                       @ map request_id (targets ?I ?S))"
    by (simp add: unambiguous_def queued_def)
  then have dW: "distinct (map request_id (targets ?I ?W))"
    and dR: "distinct (map request_id (targets ?I ?R))"
    and dS: "distinct (map request_id (targets ?I ?S))"
    and WR: "request_id ` set (targets ?I ?W) \<inter> request_id ` set (targets ?I ?R) = {}"
    and WS: "request_id ` set (targets ?I ?W) \<inter> request_id ` set (targets ?I ?S) = {}"
    and RS: "request_id ` set (targets ?I ?R) \<inter> request_id ` set (targets ?I ?S) = {}"
    by auto
  note w = abort_in_queue_result [OF dW a1]
  have sub1: "ids1 \<subseteq> ?I" using w(3) by auto
  note rr = abort_in_queue_result [OF targets_subset_ids [OF sub1 dR] a2]
  have sub2: "ids2 \<subseteq> ?I" using rr(3) sub1 by auto
  note ss = abort_in_queue_result [OF targets_subset_ids [OF sub2 dS] a3]
  have tr: "targets ?I r' = []"
  proof -
    have "request_id h \<notin> ?I" if h: "h \<in> set r'" for h
    proof
      assume i: "request_id h \<in> ?I"
      from rr(1) h have "request_id h \<notin> ids1" by (auto simp: targets_def filter_empty_conv)
      with i w(3) obtain w0 where w0: "w0 \<in> set ?W" "request_id w0 = request_id h" by auto
      with i have "request_id h \<in> request_id ` set (targets ?I ?W)"
        by (intro targets_imageI [of w0])
      moreover from h rr(2) i have "request_id h \<in> request_id ` set (targets ?I ?R)"
        by (intro targets_imageI [of h]) auto
      ultimately show False using WR by blast
    qed
    then show ?thesis by (auto simp: targets_def filter_empty_conv)
  qed
  have ts: "targets ?I s' = []"
  proof -
    have "request_id h \<notin> ?I" if h: "h \<in> set s'" for h
    proof
      assume i: "request_id h \<in> ?I"
      from ss(1) h have "request_id h \<notin> ids2" by (auto simp: targets_def filter_empty_conv)
      with i w(3) rr(3) have "request_id h \<in> request_id ` (set ?W \<union> set ?R)" by auto
      then obtain x where x: "x \<in> set ?W \<union> set ?R" "request_id x = request_id h"
        by (metis imageE)
      with i have "request_id h \<in> request_id ` set (targets ?I ?W) \<union> request_id ` set (targets ?I ?R)"
        using targets_imageI [of x ?W "request_id h" ?I] targets_imageI [of x ?R "request_id h" ?I]
        by blast
      moreover from h ss(2) i have "request_id h \<in> request_id ` set (targets ?I ?S)"
        by (intro targets_imageI [of h]) auto
      ultimately show False using WS RS by blast
    qed
    then show ?thesis by (auto simp: targets_def filter_empty_conv)
  qed
  show ?thesis using w(1) tr ts by (simp add: s' queued_def)
qed

text \<open>
  C6 (as amended).  For every id list and every scheduler state in which none of the given
  ids names more than one queued group, a second \<^verbatim>\<open>abort_seq_group\<close> with the same ids
  finds nothing to abort and leaves the scheduler (queues and block manager) exactly as
  the first call left it; and aborting ids that name no group in any of the three queues
  leaves the scheduler, and so the queues and the block tables, unchanged.
\<close>

theorem abort_idempotent:
  "(unambiguous sch rids \<and> abort_seq_group sch rids = Inr (done, sch')
      \<longrightarrow> abort_seq_group sch' rids = Inr ([], sch'))
   \<and> (targets (set rids) (queued sch) = [] \<longrightarrow> abort_seq_group sch rids = Inr ([], sch))"
  using abort_seq_group_clears abort_seq_group_none by blast


theorem abort_idempotent_witness:
  "unambiguous ex_abort_scheduler [''r'']
   \<and> (\<exists>done s1.
         abort_seq_group ex_abort_scheduler [''r''] = Inr (done, s1)
       \<and> map request_id (queued ex_abort_scheduler) = [''w'', ''r'']
       \<and> map request_id (queued s1) = [''w'']
       \<and> block_tables (block_manager ex_abort_scheduler) = [(0, [3]), (1, [3])]
       \<and> block_tables (block_manager s1) = []
       \<and> get_num_free_blocks (gpu_allocator (block_manager s1)) ''normal'' = Inr 4
       \<and> abort_seq_group s1 [''r''] = Inr ([], s1))
   \<and> targets (set [''zz'']) (queued ex_abort_scheduler) = []
   \<and> abort_seq_group ex_abort_scheduler [''zz''] = Inr ([], ex_abort_scheduler)"
proof -
  have u: "unambiguous ex_abort_scheduler [''r'']" by code_simp
  have e: "case abort_seq_group ex_abort_scheduler [''r''] of
             Inl e \<Rightarrow> False
           | Inr (done, s1) \<Rightarrow>
               map request_id (queued ex_abort_scheduler) = [''w'', ''r'']
               \<and> map request_id (queued s1) = [''w'']
               \<and> block_tables (block_manager ex_abort_scheduler) = [(0, [3]), (1, [3])]
               \<and> block_tables (block_manager s1) = []
               \<and> get_num_free_blocks (gpu_allocator (block_manager s1)) ''normal'' = Inr 4"
    by code_simp
  then obtain d s1 where
    r: "abort_seq_group ex_abort_scheduler [''r''] = Inr (d, s1)"
    and f: "map request_id (queued ex_abort_scheduler) = [''w'', ''r'']"
       "map request_id (queued s1) = [''w'']"
       "block_tables (block_manager ex_abort_scheduler) = [(0, [3]), (1, [3])]"
       "block_tables (block_manager s1) = []"
       "get_num_free_blocks (gpu_allocator (block_manager s1)) ''normal'' = Inr 4"
    by (auto split: sum.splits prod.splits)
  have z: "targets (set [''zz'']) (queued ex_abort_scheduler) = []" by code_simp
  from abort_idempotent [of ex_abort_scheduler "[''r'']" d s1] u r
  have twice: "abort_seq_group s1 [''r''] = Inr ([], s1)" by blast
  from abort_idempotent [of ex_abort_scheduler "[''zz'']"] z
  have absent: "abort_seq_group ex_abort_scheduler [''zz''] = Inr ([], ex_abort_scheduler)" by blast
  show ?thesis
  proof (intro conjI)
    show "unambiguous ex_abort_scheduler [''r'']" by (rule u)
    show "\<exists>done s1.
         abort_seq_group ex_abort_scheduler [''r''] = Inr (done, s1)
       \<and> map request_id (queued ex_abort_scheduler) = [''w'', ''r'']
       \<and> map request_id (queued s1) = [''w'']
       \<and> block_tables (block_manager ex_abort_scheduler) = [(0, [3]), (1, [3])]
       \<and> block_tables (block_manager s1) = []
       \<and> get_num_free_blocks (gpu_allocator (block_manager s1)) ''normal'' = Inr 4
       \<and> abort_seq_group s1 [''r''] = Inr ([], s1)"
      using r f twice by (intro exI [of _ d] exI [of _ s1]) simp
    show "targets (set [''zz'']) (queued ex_abort_scheduler) = []" by (rule z)
    show "abort_seq_group ex_abort_scheduler [''zz''] = Inr ([], ex_abort_scheduler)" by (rule absent)
  qed
qed

text \<open>
  C6 as stated fails: on the scheduler reached by two \<^verbatim>\<open>add_request\<close> calls with the same
  id \<open>''a''\<close>, one \<^verbatim>\<open>abort_seq_group\<close> removes only the first of the two groups (the id leaves
  the set of ids to abort at the first match), and a second call removes the other, so
  aborting twice does not leave the state that aborting once leaves.
\<close>

theorem abort_twice_counterexample:
  "map request_id (queued (hd (scheduler ex_engine_twice))) = [''a'', ''a'']
   \<and> (case abort_seq_group (hd (scheduler ex_engine_twice)) [''a''] of
        Inl e \<Rightarrow> False
      | Inr (done1, s1) \<Rightarrow>
          map request_id (queued s1) = [''a'']
          \<and> (case abort_seq_group s1 [''a''] of
                Inl e \<Rightarrow> False
              | Inr (done2, s2) \<Rightarrow> queued s2 = [] \<and> s2 \<noteq> s1))"
  by code_simp

section \<open>Partial and full swap-out\<close>



















section \<open>Swapping a group out and in again\<close>

text \<open>
  Without a sliding window the round trip works on the admitted 9-token prompt: the
  scheduler's swap-out moves the three blocks to the CPU, its swap-in brings them back,
  the group is the same object state as before, the table has three GPU blocks again, and
  the reference counts and the free counts of both allocators are as before.
\<close>

lemma swap_round_trip_example:
  "(case ex_admitted None 9 of
      (g, bm) \<Rightarrow>
        (case sched_swap_out bm g (- 1) SWAPPED of
           Inl e \<Rightarrow> False
         | Inr (out_pairs, g1, bm1) \<Rightarrow>
             map status (seqs_dict g1) = [SWAPPED]
             \<and> block_tables bm = [(0, [3, 2, 1])]
             \<and> block_tables bm1 = [(0, [7, 6, 5])]
             \<and> (case sched_swap_in bm1 g1 of
                  Inl e \<Rightarrow> False
                | Inr (in_pairs, g2, bm2) \<Rightarrow>
                    g2 = g
                    \<and> block_tables bm2 = [(0, [1, 2, 3])]
                    \<and> map (\<lambda>b. device (heap bm2 ! b)) [1, 2, 3] = [GPU, GPU, GPU]
                    \<and> map (\<lambda>b. ref_count (heap bm2 ! b)) [1, 2, 3]
                        = map (\<lambda>b. ref_count (heap bm ! b)) [3, 2, 1]
                    \<and> get_num_free_blocks (gpu_allocator bm2) ''normal''
                        = get_num_free_blocks (gpu_allocator bm) ''normal''
                    \<and> get_num_free_blocks (cpu_allocator bm2) ''normal''
                        = get_num_free_blocks (cpu_allocator bm) ''normal'')))"
  by code_simp

text \<open>
  C2 fails on the code for a group admitted under a sliding window.  With a window of 8
  tokens and blocks of 4, \<^verbatim>\<open>allocate\<close> gives a 9-token prompt the table \<open>[3, 2, 3]\<close>: the
  third logical block reuses the first physical block, whose reference count stays 1.
  \<^verbatim>\<open>can_swap_out\<close> accepts the group, and \<^verbatim>\<open>swap_out\<close> then frees block 3 once for each of
  its two table entries: the second \<^verbatim>\<open>free\<close> raises the double-free error, so the group
  is never swapped out and there is no state for \<^verbatim>\<open>swap_in\<close> to restore.
  (\<^verbatim>\<open>_free_block_table\<close> and \<^verbatim>\<open>fork\<close> go through the set of the table's blocks for this
  very reason; \<^verbatim>\<open>_swap_block_table\<close> goes through the table itself.)
\<close>

theorem swap_out_window_double_free:
  "block_sliding_window (ex_swap_manager (Some 8)) = Some 2
   \<and> (case ex_admitted (Some 8) 9 of
        (g, bm) \<Rightarrow>
          map status (seqs_dict g) = [RUNNING]
          \<and> block_tables bm = [(0, [3, 2, 3])]
          \<and> map (\<lambda>b. ref_count (heap bm ! b)) [3, 2] = [1, 1]
          \<and> can_swap_out bm g = Inr True
          \<and> swap_out bm g (- 1) = Inl DoubleFree
          \<and> sched_swap_out bm g (- 1) SWAPPED = Inl DoubleFree)"
  by code_simp

end
